theory Spec2Isabelle
  imports Main
begin

section \<open>JavaScript values used by the authentication code\<close>

text \<open>
  Strings are ASCII character lists. Time is the value of \<^verbatim>\<open>Date.now()\<close>, an
  integer number of milliseconds; a request observes one value of it. A thrown
  JavaScript error is a value: its \<^verbatim>\<open>name\<close> and its \<^verbatim>\<open>message\<close>.
\<close>

datatype exn = Exn string string

fun exn_message :: "exn \<Rightarrow> string" where
  "exn_message (Exn n m) = m"

definition isUpper :: "char \<Rightarrow> bool" where
  "isUpper c = (65 \<le> (of_char c :: nat) \<and> (of_char c :: nat) \<le> 90)"

definition isLower :: "char \<Rightarrow> bool" where
  "isLower c = (97 \<le> (of_char c :: nat) \<and> (of_char c :: nat) \<le> 122)"

definition isDigit :: "char \<Rightarrow> bool" where
  "isDigit c = (48 \<le> (of_char c :: nat) \<and> (of_char c :: nat) \<le> 57)"

definition toLowerChar :: "char \<Rightarrow> char" where
  "toLowerChar c = (if isUpper c then char_of ((of_char c :: nat) + 32) else c)"

definition toLowerCase :: "string \<Rightarrow> string" where
  "toLowerCase s = map toLowerChar s"

fun startsWith :: "string \<Rightarrow> string \<Rightarrow> bool" where
  "startsWith s [] = True"
| "startsWith [] (c # cs) = False"
| "startsWith (x # xs) (c # cs) = (x = c \<and> startsWith xs cs)"

text \<open>\<^verbatim>\<open>hay.includes(needle)\<close>: the needle occurs at some position of the hay.\<close>

fun str_includes :: "string \<Rightarrow> string \<Rightarrow> bool" where
  "str_includes [] n = (n = [])"
| "str_includes (x # xs) n = (startsWith (x # xs) n \<or> str_includes xs n)"

text \<open>\<^verbatim>\<open>xs.join(sep)\<close>.\<close>

fun join :: "string \<Rightarrow> string list \<Rightarrow> string" where
  "join sep [] = []"
| "join sep [x] = x"
| "join sep (x # y # ys) = x @ sep @ join sep (y # ys)"

text \<open>\<^verbatim>\<open>s.trim()\<close> over the ASCII white space characters.\<close>

definition isSpace :: "char \<Rightarrow> bool" where
  "isSpace c = ((of_char c :: nat) \<in> {9, 10, 11, 12, 13, 32})"

definition trim :: "string \<Rightarrow> string" where
  "trim s = rev (dropWhile isSpace (rev (dropWhile isSpace s)))"

text \<open>A number as a template string renders it: in decimal, with a sign when negative.\<close>

definition digitChar :: "nat \<Rightarrow> char" where
  "digitChar k = char_of (of_char (CHR ''0'') + k)"

fun decimal :: "nat \<Rightarrow> string" where
  "decimal n = (if 10 \<le> n then decimal (n div 10) else []) @ [digitChar (n mod 10)]"

definition show_number :: "int \<Rightarrow> string" where
  "show_number i = (if 0 \<le> i then decimal (nat i) else CHR ''-'' # decimal (nat (- i)))"

section \<open>utils/passwordValidator.js\<close>

definition specialChars :: string where
  "specialChars = ''!@#$%^&*()_+-=[]{};:|,.<>/?'' @ [CHR 0x27, CHR 0x22, CHR 0x5C]"

definition isSpecial :: "char \<Rightarrow> bool" where
  "isSpecial c = (c \<in> set specialChars)"

definition commonPasswords :: "string list" where
  "commonPasswords =
     [''password'', ''password123'', ''12345678'', ''qwerty'', ''abc123'',
      ''password1'', ''123456789'', ''12345'', ''1234567890'', ''letmein'',
      ''welcome'', ''monkey'', ''dragon'', ''master'', ''sunshine'', ''princess'',
      ''admin'', ''admin123'', ''root'', ''toor'', ''pass'', ''test'', ''guest'']"

text \<open>
  The regular expression \<^verbatim>\<open>/(.)\1{2,}/\<close>: three equal characters in a row, the
  character not being a line terminator (which \<^verbatim>\<open>.\<close> does not match).
\<close>

definition isLineTerminator :: "char \<Rightarrow> bool" where
  "isLineTerminator c = ((of_char c :: nat) \<in> {10, 13})"

fun repeatedRun :: "string \<Rightarrow> bool" where
  "repeatedRun (a # b # c # rest) =
     ((a = b \<and> b = c \<and> \<not> isLineTerminator a) \<or> repeatedRun (b # c # rest))"
| "repeatedRun s = False"

definition msg_minLength :: string where
  "msg_minLength = ''Password must be at least 8 characters long''"

definition msg_maxLength :: string where
  "msg_maxLength = ''Password must not exceed 128 characters''"

definition msg_uppercase :: string where
  "msg_uppercase = ''Password must contain at least one uppercase letter''"

definition msg_lowercase :: string where
  "msg_lowercase = ''Password must contain at least one lowercase letter''"

definition msg_digit :: string where
  "msg_digit = ''Password must contain at least one number''"

definition msg_special :: string where
  "msg_special =
     ''Password must contain at least one special character (!@#$%^&*()_+-=[]{}; etc.)''"

definition msg_common :: string where
  "msg_common = ''Password is too common and easily guessable''"

definition msg_repeated :: string where
  "msg_repeated = ''Password should not contain repeated characters (e.g., aaa, 111)''"

definition msg_match :: string where
  "msg_match = ''Passwords do not match''"

definition msg_email :: string where
  "msg_email = ''Password should not contain your email address''"

definition msg_firstname :: string where
  "msg_firstname = ''Password should not contain your first name''"

definition msg_lastname :: string where
  "msg_lastname = ''Password should not contain your last name''"

text \<open>
  \<^verbatim>\<open>validatePasswordStrength(password)\<close>. A request body without a password gives
  \<^verbatim>\<open>undefined\<close>: the checks up to the common-password test run on it, and
  \<^verbatim>\<open>password.toLowerCase()\<close> then throws a TypeError, so no result is returned.
\<close>

definition validatePasswordStrength :: "string option \<Rightarrow> exn + string list" where
  "validatePasswordStrength password =
     (case password of
        None \<Rightarrow>
          Inl (Exn ''TypeError''
                 ''Cannot read properties of undefined (reading toLowerCase)'')
      | Some p \<Rightarrow>
          Inr ((if length p < 8 then [msg_minLength] else [])
             @ (if length p > 128 then [msg_maxLength] else [])
             @ (if \<not> list_ex isUpper p then [msg_uppercase] else [])
             @ (if \<not> list_ex isLower p then [msg_lowercase] else [])
             @ (if \<not> list_ex isDigit p then [msg_digit] else [])
             @ (if \<not> list_ex isSpecial p then [msg_special] else [])
             @ (if toLowerCase p \<in> set commonPasswords then [msg_common] else [])
             @ (if repeatedRun p then [msg_repeated] else [])))"

definition validatePasswordMatch :: "string \<Rightarrow> string \<Rightarrow> string option" where
  "validatePasswordMatch password confirmPassword =
     (if password \<noteq> confirmPassword then Some msg_match else None)"

record userInfo =
  ui_email :: "string option"
  ui_firstname :: "string option"
  ui_lastname :: "string option"

text \<open>A string is truthy when it is present and not empty.\<close>

definition truthy :: "string option \<Rightarrow> bool" where
  "truthy s = (case s of None \<Rightarrow> False | Some v \<Rightarrow> v \<noteq> [])"

definition emailLocalPart :: "string \<Rightarrow> string" where
  "emailLocalPart e = toLowerCase (takeWhile (\<lambda>c. c \<noteq> CHR ''@'') e)"

text \<open>
  \<^verbatim>\<open>validatePasswordNoUserInfo(password, userInfo)\<close> returns one error: that of the
  first check that fails, in the order email, first name, last name.
\<close>

definition validatePasswordNoUserInfo :: "string \<Rightarrow> userInfo \<Rightarrow> string option" where
  "validatePasswordNoUserInfo password ui =
     (let lowerPassword = toLowerCase password in
      if truthy (ui_email ui)
         \<and> str_includes lowerPassword (emailLocalPart (the (ui_email ui)))
      then Some msg_email
      else if truthy (ui_firstname ui) \<and> length (the (ui_firstname ui)) \<ge> 3
         \<and> str_includes lowerPassword (toLowerCase (the (ui_firstname ui)))
      then Some msg_firstname
      else if truthy (ui_lastname ui) \<and> length (the (ui_lastname ui)) \<ge> 3
         \<and> str_includes lowerPassword (toLowerCase (the (ui_lastname ui)))
      then Some msg_lastname
      else None)"

record validation =
  isValid :: bool
  errors :: "string list"

text \<open>
  \<^verbatim>\<open>validatePassword(password, confirmPassword = null, userInfo = null)\<close>: an
  absent confirmation is \<^verbatim>\<open>null\<close> and skips the match check.
\<close>

definition validatePassword ::
  "string option \<Rightarrow> string option \<Rightarrow> userInfo option \<Rightarrow> exn + validation" where
  "validatePassword password confirmPassword ui =
     (case validatePasswordStrength password of
        Inl e \<Rightarrow> Inl e
      | Inr strengthErrors \<Rightarrow>
          (let p = the password;
               matchErrors =
                 (case confirmPassword of
                    None \<Rightarrow> []
                  | Some c \<Rightarrow>
                      (case validatePasswordMatch p c of None \<Rightarrow> [] | Some e \<Rightarrow> [e]));
               infoErrors =
                 (case ui of
                    None \<Rightarrow> []
                  | Some i \<Rightarrow>
                      (case validatePasswordNoUserInfo p i of None \<Rightarrow> [] | Some e \<Rightarrow> [e]));
               allErrors = strengthErrors @ matchErrors @ infoErrors
           in Inr \<lparr>isValid = (allErrors = []), errors = allErrors\<rparr>))"

section \<open>utils/generateToken.js\<close>

text \<open>
  The process environment, read when a token is made or checked. The module constant
  \<^verbatim>\<open>SESSION_TIMEOUT_MINUTES\<close> is \<^verbatim>\<open>parseInt(env) || 120\<close>; the field below is the
  number \<^verbatim>\<open>parseInt\<close> read, \<open>None\<close> when it read none.
\<close>

record config =
  JWT_SECRET :: "string option"
  JWT_EXPIRES_IN :: "string option"
  JWT_REFRESH_EXPIRES_IN :: "string option"
  sessionTimeoutEnv :: "int option"

definition SESSION_TIMEOUT_MINUTES :: "config \<Rightarrow> int" where
  "SESSION_TIMEOUT_MINUTES cfg =
     (case sessionTimeoutEnv cfg of None \<Rightarrow> 120 | Some n \<Rightarrow> if n = 0 then 120 else n)"

record metadata =
  md_ipAddress :: "string option"
  md_userAgent :: "string option"

text \<open>
  A token is a signed, self-describing string. The model keeps what
  \<^verbatim>\<open>jwt.verify\<close> reads from it: the payload and the key that signed it; a
  string that does not parse as a token is \<open>Malformed\<close>. Two tokens are the same
  string exactly when payload and key agree.
\<close>

record payload =
  tk_id :: nat
  tk_type :: string
  tk_tokenVersion :: "int option"
  tk_jti :: string
  tk_iat :: int
  tk_exp :: int
  tk_ipAddress :: "string option"
  tk_userAgent :: "string option"

datatype jwt = Malformed string | Signed payload string

definition tok_truthy :: "jwt \<Rightarrow> bool" where
  "tok_truthy t = (t \<noteq> Malformed [])"

definition unit_ms :: "char \<Rightarrow> int" where
  "unit_ms u =
     (if u = CHR ''s'' then 1000
      else if u = CHR ''m'' then 60 * 1000
      else if u = CHR ''h'' then 60 * 60 * 1000
      else 24 * 60 * 60 * 1000)"

definition parseInt :: "string \<Rightarrow> int" where
  "parseInt ds = int (fold (\<lambda>c n. 10 * n + ((of_char c :: nat) - 48)) ds 0)"

text \<open>
  \<^verbatim>\<open>expiration.match(/^(\d+)([smhd])$/)\<close>: the digits and the unit of a string of
  that form.
\<close>

definition matchExpiration :: "string \<Rightarrow> (string \<times> char) option" where
  "matchExpiration expiration =
     (case rev expiration of
        [] \<Rightarrow> None
      | u # ds \<Rightarrow>
          if ds \<noteq> [] \<and> list_all isDigit ds \<and> u \<in> set ''smhd'' then Some (rev ds, u)
          else None)"

definition parseExpiration :: "string \<Rightarrow> exn + int" where
  "parseExpiration expiration =
     (case matchExpiration expiration of
        None \<Rightarrow> Inl (Exn ''Error'' (''Invalid expiration format: '' @ expiration))
      | Some (digits, u) \<Rightarrow> Inr (parseInt digits * unit_ms u))"

text \<open>
  \<^verbatim>\<open>jwt.sign(payload, secret, { expiresIn })\<close>: the expiry is the payload's
  \<^verbatim>\<open>iat\<close> plus the lifetime in seconds; signing without a secret throws.
\<close>

definition jwt_sign :: "payload \<Rightarrow> string option \<Rightarrow> int \<Rightarrow> exn + jwt" where
  "jwt_sign p secret lifetime_ms =
     (if \<not> truthy secret then Inl (Exn ''Error'' ''secretOrPrivateKey must have a value'')
      else Inr (Signed (p\<lparr>tk_exp := tk_iat p + lifetime_ms div 1000\<rparr>) (the secret)))"

definition envOr :: "string option \<Rightarrow> string \<Rightarrow> string" where
  "envOr v dflt = (if truthy v then the v else dflt)"

definition createToken ::
  "config \<Rightarrow> nat \<Rightarrow> int \<Rightarrow> metadata \<Rightarrow> int \<Rightarrow> string \<Rightarrow> exn + (jwt \<times> int)" where
  "createToken cfg uid tokenVersion md now jti =
     (case parseExpiration (envOr (JWT_EXPIRES_IN cfg) ''2h'') of
        Inl e \<Rightarrow> Inl e
      | Inr ms \<Rightarrow>
          (case jwt_sign
                  \<lparr>tk_id = uid, tk_type = ''access'', tk_tokenVersion = Some tokenVersion,
                   tk_jti = jti, tk_iat = now div 1000, tk_exp = 0,
                   tk_ipAddress = md_ipAddress md, tk_userAgent = md_userAgent md\<rparr>
                  (JWT_SECRET cfg) ms of
             Inl e \<Rightarrow> Inl e
           | Inr token \<Rightarrow> Inr (token, now + ms)))"

definition createRefreshToken ::
  "config \<Rightarrow> nat \<Rightarrow> int \<Rightarrow> metadata \<Rightarrow> int \<Rightarrow> string \<Rightarrow> exn + (jwt \<times> int)" where
  "createRefreshToken cfg uid tokenVersion md now jti =
     (case parseExpiration (envOr (JWT_REFRESH_EXPIRES_IN cfg) ''7d'') of
        Inl e \<Rightarrow> Inl e
      | Inr ms \<Rightarrow>
          (case jwt_sign
                  \<lparr>tk_id = uid, tk_type = ''refresh'', tk_tokenVersion = Some tokenVersion,
                   tk_jti = jti, tk_iat = now div 1000, tk_exp = 0,
                   tk_ipAddress = md_ipAddress md, tk_userAgent = md_userAgent md\<rparr>
                  (JWT_SECRET cfg) ms of
             Inl e \<Rightarrow> Inl e
           | Inr token \<Rightarrow> Inr (token, now + ms)))"

text \<open>
  \<^verbatim>\<open>jwt.verify(token, secret)\<close>: the string parses, the signature is that of the
  secret, and the clock in seconds is before \<^verbatim>\<open>exp\<close>.
\<close>

definition jwt_verify :: "jwt \<Rightarrow> string option \<Rightarrow> int \<Rightarrow> exn + payload" where
  "jwt_verify token secret now =
     (case token of
        Malformed s \<Rightarrow> Inl (Exn ''JsonWebTokenError'' ''jwt malformed'')
      | Signed p k \<Rightarrow>
          if \<not> truthy secret
          then Inl (Exn ''JsonWebTokenError'' ''secret or public key must be provided'')
          else if k \<noteq> the secret then Inl (Exn ''JsonWebTokenError'' ''invalid signature'')
          else if now div 1000 \<ge> tk_exp p then Inl (Exn ''TokenExpiredError'' ''jwt expired'')
          else Inr p)"

text \<open>The \<^verbatim>\<open>catch\<close> block of \<^verbatim>\<open>verifyToken\<close>, which renames the library's errors.\<close>

fun verifyToken_catch :: "exn \<Rightarrow> exn" where
  "verifyToken_catch (Exn name m) =
     (if name = ''TokenExpiredError'' then Exn ''Error'' ''Token has expired''
      else if name = ''JsonWebTokenError'' then Exn ''Error'' ''Invalid token''
      else Exn name m)"

definition verifyToken :: "config \<Rightarrow> jwt \<Rightarrow> string option \<Rightarrow> int \<Rightarrow> exn + payload" where
  "verifyToken cfg token expectedType now =
     (case jwt_verify token (JWT_SECRET cfg) now of
        Inl e \<Rightarrow> Inl (verifyToken_catch e)
      | Inr decoded \<Rightarrow>
          if truthy expectedType \<and> tk_type decoded \<noteq> the expectedType
          then Inl (verifyToken_catch
                 (Exn ''Error'' (''Invalid token type. Expected '' @ the expectedType
                                  @ '', got '' @ tk_type decoded)))
          else Inr decoded)"

section \<open>The request\<close>

text \<open>
  What the handlers read of an Express request. An \<^verbatim>\<open>Authorization\<close> header is
  either \<^verbatim>\<open>Bearer\<close> followed by a token string, or something else.
\<close>

datatype auth_header = Bearer jwt | OtherScheme string

record request =
  cookie_accessToken :: "jwt option"
  cookie_refreshToken :: "jwt option"
  authorization :: "auth_header option"
  req_ip :: "string option"
  remoteAddress :: "string option"
  header_userAgent :: "string option"
  body_firstname :: "string option"
  body_lastname :: "string option"
  body_email :: "string option"
  body_password :: "string option"
  body_phone :: "string option"
  body_role :: "string option"
  body_currentPassword :: "string option"
  body_newPassword :: "string option"
  body_confirmPassword :: "string option"
  body_refreshToken :: "jwt option"

definition extractToken :: "request \<Rightarrow> jwt option" where
  "extractToken req =
     (case cookie_accessToken req of
        Some t \<Rightarrow>
          if tok_truthy t then Some t
          else (case authorization req of Some (Bearer b) \<Rightarrow> Some b | _ \<Rightarrow> None)
      | None \<Rightarrow> (case authorization req of Some (Bearer b) \<Rightarrow> Some b | _ \<Rightarrow> None))"

definition getClientMetadata :: "request \<Rightarrow> metadata" where
  "getClientMetadata req =
     \<lparr>md_ipAddress = (if truthy (req_ip req) then req_ip req else remoteAddress req),
      md_userAgent = Some (envOr (header_userAgent req) ''Unknown'')\<rparr>"

section \<open>The stores\<close>

text \<open>
  The password hash is an opaque one-way hash with a compare operation: the hash of
  a password is \<open>Bcrypt\<close> of it, and a stored hash is never a password that is
  submitted in clear.
\<close>

datatype pwhash = Bcrypt string

fun bcrypt_compare :: "string \<Rightarrow> pwhash \<Rightarrow> bool" where
  "bcrypt_compare candidate (Bcrypt p) = (candidate = p)"

text \<open>
  The fields of model/User.js that the authentication code reads or writes. Object
  ids are numbers.
\<close>

record user =
  u_id :: nat
  u_firstname :: string
  u_lastname :: string
  u_email :: string
  u_phone :: "string option"
  u_password :: pwhash
  u_passwordChangedAt :: "int option"
  u_tokenVersion :: int
  u_loginAttempts :: int
  u_lockUntil :: "int option"
  u_lastLogin :: "int option"
  u_lastPasswordChange :: "int option"
  u_isBlocked :: bool
  u_role :: string
  u_userAward :: string

text \<open>
  model/Post.js is not among the sources; the hook of model/User.js reads the author
  and the creation time of the stored posts, in the order the query returns them.
\<close>

record post =
  po_author :: nat
  po_createdAt :: int

record bl_entry =
  b_token :: jwt
  b_userId :: nat
  b_reason :: string
  b_expiresAt :: int
  b_blacklistedAt :: int
  b_ipAddress :: "string option"
  b_userAgent :: "string option"

record session =
  s_id :: nat
  s_userId :: nat
  s_token :: jwt
  s_refreshToken :: "jwt option"
  s_ipAddress :: "string option"
  s_userAgent :: "string option"
  s_lastActivity :: int
  s_expiresAt :: int
  s_isActive :: bool

record db =
  users :: "user list"
  posts :: "post list"
  blacklist :: "bl_entry list"
  sessions :: "session list"

text \<open>A new object id is one that no stored document of the collection has.\<close>

definition new_oid :: "nat list \<Rightarrow> nat" where
  "new_oid ids = Suc (fold max ids 0)"

definition duplicateKey :: "string \<Rightarrow> exn" where
  "duplicateKey index =
     Exn ''MongoServerError'' (''E11000 duplicate key error index: '' @ index)"

definition validationFailed :: "string \<Rightarrow> string list \<Rightarrow> exn" where
  "validationFailed model errs =
     Exn ''ValidationError'' (model @ '' validation failed: '' @ join '', '' errs)"

definition requiredError :: "string \<Rightarrow> string" where
  "requiredError path = path @ '': Path '' @ [CHR 0x60] @ path @ [CHR 0x60] @ '' is required.''"

definition enumError :: "string \<Rightarrow> string \<Rightarrow> string" where
  "enumError path v =
     path @ '': '' @ [CHR 0x60] @ v @ [CHR 0x60] @ '' is not a valid enum value for path ''
       @ [CHR 0x60] @ path @ [CHR 0x60] @ ''.''"

section \<open>model/TokenBlacklist.js\<close>

definition reasonEnum :: "string list" where
  "reasonEnum = [''logout'', ''password_change'', ''account_deleted'', ''forced_logout'', ''expired'']"

text \<open>
  \<^verbatim>\<open>isBlacklisted(token)\<close>: an entry with this token value that has not expired.
\<close>

definition isBlacklisted :: "jwt \<Rightarrow> int \<Rightarrow> bl_entry list \<Rightarrow> bool" where
  "isBlacklisted token now bl = list_ex (\<lambda>e. b_token e = token \<and> b_expiresAt e > now) bl"

text \<open>
  \<^verbatim>\<open>blacklistToken\<close> is \<^verbatim>\<open>this.create\<close>: the document is validated against the
  schema (a required token, a reason of the enumeration), then inserted, which the
  unique index on the token refuses for a value already stored. The expired entries
  that the store has not yet removed are still in the collection.
\<close>

definition TokenBlacklist_validate :: "jwt \<Rightarrow> string \<Rightarrow> string list" where
  "TokenBlacklist_validate token reason =
     (if \<not> tok_truthy token then [requiredError ''token''] else [])
     @ (if reason \<notin> set reasonEnum then [enumError ''reason'' reason] else [])"

definition blacklistToken ::
  "jwt \<Rightarrow> nat \<Rightarrow> int \<Rightarrow> string \<Rightarrow> metadata \<Rightarrow> int \<Rightarrow> bl_entry list \<Rightarrow> exn + bl_entry list" where
  "blacklistToken token userId expiresAt reason md now bl =
     (let errs = TokenBlacklist_validate token reason
      in if errs \<noteq> [] then Inl (validationFailed ''TokenBlacklist'' errs)
         else if list_ex (\<lambda>e. b_token e = token) bl
         then Inl (duplicateKey ''token_1'')
         else Inr (bl @ [\<lparr>b_token = token, b_userId = userId, b_reason = reason,
                          b_expiresAt = expiresAt, b_blacklistedAt = now,
                          b_ipAddress = md_ipAddress md, b_userAgent = md_userAgent md\<rparr>]))"

definition no_metadata :: metadata where
  "no_metadata = \<lparr>md_ipAddress = None, md_userAgent = None\<rparr>"

section \<open>model/Session.js\<close>

text \<open>
  The schema gives its documents a method named \<^verbatim>\<open>invalidate\<close>, which is also the
  name of the document method through which validation records a path that fails.
  The schema's method takes its place, so the validation of a session records no
  error: for a required path that is empty (the token, the ipAddress) it calls the
  schema's method, whose first statement sets \<^verbatim>\<open>isActive\<close> to false. The rest
  of that call is awaited by no one and writes nothing: the save it starts finds one
  under way, and the reason it would blacklist under is the name of the path, which
  the schema of the ledger does not accept. A save is thus never refused by
  validation, and stores the document with the flag as validation left it.
\<close>

definition Session_validate :: "session \<Rightarrow> session" where
  "Session_validate doc =
     (if \<not> tok_truthy (s_token doc) \<or> \<not> truthy (s_ipAddress doc)
      then doc\<lparr>s_isActive := False\<rparr> else doc)"

text \<open>\<^verbatim>\<open>Session.create\<close>: validation, then the insert under the unique token index.\<close>

definition Session_create ::
  "nat \<Rightarrow> jwt \<Rightarrow> jwt \<Rightarrow> metadata \<Rightarrow> int \<Rightarrow> int \<Rightarrow> session list \<Rightarrow> exn + session list" where
  "Session_create userId token refreshToken md expiresAt now ss =
     (let doc = Session_validate
                  \<lparr>s_id = new_oid (map s_id ss), s_userId = userId, s_token = token,
                   s_refreshToken = Some refreshToken, s_ipAddress = md_ipAddress md,
                   s_userAgent = md_userAgent md, s_lastActivity = now,
                   s_expiresAt = expiresAt, s_isActive = True\<rparr>
      in if list_ex (\<lambda>s. s_token s = token) ss then Inl (duplicateKey ''token_1'')
         else Inr (ss @ [doc]))"

text \<open>
  \<^verbatim>\<open>doc.save()\<close> of a changed session: validation, then the update of the stored
  document of that id.
\<close>

definition Session_save :: "session \<Rightarrow> session list \<Rightarrow> session list" where
  "Session_save doc ss = map (\<lambda>s. if s_id s = s_id doc then Session_validate doc else s) ss"

text \<open>\<^verbatim>\<open>updateActivity\<close>; the document it leaves is the one validation has seen.\<close>

definition updateActivity :: "session \<Rightarrow> int \<Rightarrow> db \<Rightarrow> session \<times> db" where
  "updateActivity this now d =
     (let doc = Session_validate (this\<lparr>s_lastActivity := now\<rparr>)
      in (doc, d\<lparr>sessions := Session_save doc (sessions d)\<rparr>))"

text \<open>
  \<^verbatim>\<open>session.invalidate(reason)\<close>: the flag is saved first, the token blacklisted
  after; an error of the second leaves the first in place.
\<close>

definition Session_invalidate :: "session \<Rightarrow> string \<Rightarrow> int \<Rightarrow> db \<Rightarrow> exn option \<times> db" where
  "Session_invalidate this reason now d =
     (let doc = this\<lparr>s_isActive := False\<rparr>;
          d1 = d\<lparr>sessions := Session_save doc (sessions d)\<rparr>
      in case blacklistToken (s_token doc) (s_userId doc) (s_expiresAt doc) reason
                \<lparr>md_ipAddress = s_ipAddress doc, md_userAgent = s_userAgent doc\<rparr>
                now (blacklist d1) of
           Inl e \<Rightarrow> (Some e, d1)
         | Inr bl \<Rightarrow> (None, d1\<lparr>blacklist := bl\<rparr>))"

text \<open>The loop of \<^verbatim>\<open>invalidateAllUserSessions\<close> over the sessions it found.\<close>

fun invalidate_each :: "session list \<Rightarrow> nat \<Rightarrow> string \<Rightarrow> int \<Rightarrow> db \<Rightarrow> exn option \<times> db" where
  "invalidate_each [] userId reason now d = (None, d)"
| "invalidate_each (s # rest) userId reason now d =
     (let doc = s\<lparr>s_isActive := False\<rparr>;
          d1 = d\<lparr>sessions := Session_save doc (sessions d)\<rparr>
      in case blacklistToken (s_token doc) userId (s_expiresAt doc) reason
                \<lparr>md_ipAddress = s_ipAddress doc, md_userAgent = s_userAgent doc\<rparr>
                now (blacklist d1) of
           Inl e \<Rightarrow> (Some e, d1)
         | Inr bl \<Rightarrow> invalidate_each rest userId reason now (d1\<lparr>blacklist := bl\<rparr>))"

definition invalidateAllUserSessions :: "nat \<Rightarrow> string \<Rightarrow> int \<Rightarrow> db \<Rightarrow> (exn + nat) \<times> db" where
  "invalidateAllUserSessions userId reason now d =
     (let found = filter (\<lambda>s. s_userId s = userId \<and> s_isActive s) (sessions d)
      in case invalidate_each found userId reason now d of
           (Some e, d1) \<Rightarrow> (Inl e, d1)
         | (None, d1) \<Rightarrow> (Inr (length found), d1))"

text \<open>\<^verbatim>\<open>isInactive(maxInactivityMinutes)\<close>, the minutes compared as milliseconds.\<close>

definition isInactive :: "session \<Rightarrow> int \<Rightarrow> int \<Rightarrow> bool" where
  "isInactive this maxInactivityMinutes now =
     (now - s_lastActivity this > maxInactivityMinutes * (1000 * 60))"

definition Session_findOne :: "jwt \<Rightarrow> nat \<Rightarrow> session list \<Rightarrow> session option" where
  "Session_findOne token userId ss =
     find (\<lambda>s. s_token s = token \<and> s_userId s = userId \<and> s_isActive s) ss"

section \<open>model/User.js\<close>

definition User_update :: "nat option \<Rightarrow> (user \<Rightarrow> user) \<Rightarrow> user list \<Rightarrow> user list" where
  "User_update userId f us = map (\<lambda>u. if Some (u_id u) = userId then f u else u) us"

definition awardFor :: "nat \<Rightarrow> string" where
  "awardFor n = (if n < 10 then ''Bronze'' else if n < 20 then ''Silver'' else ''Gold'')"

text \<open>
  The hook \<^verbatim>\<open>UserSchema.pre("findOne")\<close>. Its \<^verbatim>\<open>userId\<close> is the \<^verbatim>\<open>_id\<close> condition
  of the query, undefined (\<open>None\<close>) for a query by email; every stored post has an
  author, so the posts of an undefined author are none.
\<close>

definition pre_findOne :: "nat option \<Rightarrow> int \<Rightarrow> db \<Rightarrow> db" where
  "pre_findOne userId now d =
     (let found = filter (\<lambda>p. Some (po_author p) = userId) (posts d)
      in if length found > 0
         then
           (let lastPostDate = po_createdAt (last found);
                us1 = (if now - lastPostDate > 30 * (1000 * 3600 * 24)
                       then User_update userId (\<lambda>u. u\<lparr>u_isBlocked := True\<rparr>) (users d)
                       else User_update userId (\<lambda>u. u\<lparr>u_isBlocked := False\<rparr>) (users d));
                us2 = User_update userId (\<lambda>u. u\<lparr>u_userAward := awardFor (length found)\<rparr>) us1
            in d\<lparr>users := us2\<rparr>)
         else d)"

definition User_findById :: "nat \<Rightarrow> int \<Rightarrow> db \<Rightarrow> user option \<times> db" where
  "User_findById userId now d =
     (let d1 = pre_findOne (Some userId) now d
      in (find (\<lambda>u. u_id u = userId) (users d1), d1))"

text \<open>
  \<^verbatim>\<open>User.findOne({ email })\<close>: the value of the condition is cast by the schema,
  whose \<^verbatim>\<open>trim\<close> setter applies to it as it does to a stored email.
\<close>

definition User_findOne_email :: "string option \<Rightarrow> int \<Rightarrow> db \<Rightarrow> user option \<times> db" where
  "User_findOne_email e now d =
     (let d1 = pre_findOne None now d
      in (find (\<lambda>u. Some (u_email u) = map_option trim e) (users d1), d1))"

definition isLocked :: "user \<Rightarrow> int \<Rightarrow> bool" where
  "isLocked this now = (case u_lockUntil this of None \<Rightarrow> False | Some t \<Rightarrow> t > now)"

definition isTokenVersionValid :: "user \<Rightarrow> int \<Rightarrow> bool" where
  "isTokenVersionValid this tokenVersion = (u_tokenVersion this = tokenVersion)"

definition comparePassword :: "user \<Rightarrow> string \<Rightarrow> bool" where
  "comparePassword this candidatePassword = bcrypt_compare candidatePassword (u_password this)"

text \<open>
  \<^verbatim>\<open>incLoginAttempts\<close>: the decision reads the loaded document \<open>this\<close>, the update
  is applied to the stored one.
\<close>

definition incLoginAttempts :: "user \<Rightarrow> int \<Rightarrow> user list \<Rightarrow> user list" where
  "incLoginAttempts this now us =
     (if u_lockUntil this \<noteq> None \<and> the (u_lockUntil this) < now
      then User_update (Some (u_id this))
             (\<lambda>u. u\<lparr>u_loginAttempts := 1, u_lockUntil := None\<rparr>) us
      else if u_loginAttempts this + 1 \<ge> 5 \<and> \<not> isLocked this now
      then User_update (Some (u_id this))
             (\<lambda>u. u\<lparr>u_loginAttempts := u_loginAttempts u + 1,
                     u_lockUntil := Some (now + 2 * 60 * 60 * 1000)\<rparr>) us
      else User_update (Some (u_id this))
             (\<lambda>u. u\<lparr>u_loginAttempts := u_loginAttempts u + 1\<rparr>) us)"

definition resetLoginAttempts :: "user \<Rightarrow> int \<Rightarrow> user list \<Rightarrow> user list" where
  "resetLoginAttempts this now us =
     User_update (Some (u_id this))
       (\<lambda>u. u\<lparr>u_loginAttempts := 0, u_lastLogin := Some now, u_lockUntil := None\<rparr>) us"

text \<open>
  The validators of the user schema on the paths a save validates: the required
  paths, and the role when the save sets it.
\<close>

definition User_validate ::
  "string option \<Rightarrow> string option \<Rightarrow> string option \<Rightarrow> string option
     \<Rightarrow> string option \<Rightarrow> string list" where
  "User_validate firstname lastname email password role =
     (if \<not> truthy firstname then [''firstname: First Name is Required''] else [])
     @ (if \<not> truthy lastname then [''lastname: Last Name is Required''] else [])
     @ (if \<not> truthy email then [''email: Email is Required''] else [])
     @ (if \<not> truthy password then [''password: Password is Required'']
        else if length (the password) < 8
        then [''password: Password must be at least 8 characters''] else [])
     @ (case role of
          None \<Rightarrow> []
        | Some v \<Rightarrow> if v \<notin> set [''user'', ''admin''] then [enumError ''role'' v] else [])"

text \<open>
  \<^verbatim>\<open>User.create\<close>: the schema's setters and validators, the \<^verbatim>\<open>pre("save")\<close> hook
  (a new document is hashed, its token version is not incremented), then the insert
  under the unique email index.
\<close>

definition User_create ::
  "string option \<Rightarrow> string option \<Rightarrow> string option \<Rightarrow> string option \<Rightarrow> string option
     \<Rightarrow> string \<Rightarrow> user list \<Rightarrow> exn + (user \<times> user list)" where
  "User_create firstname lastname email password phone role us =
     (let email' = map_option trim email;
          errs = User_validate firstname lastname email' password (Some role)
      in if errs \<noteq> [] then Inl (validationFailed ''User'' errs)
         else if list_ex (\<lambda>u. u_email u = the email') us then Inl (duplicateKey ''email_1'')
         else
           (let doc = \<lparr>u_id = new_oid (map u_id us), u_firstname = the firstname,
                       u_lastname = the lastname, u_email = the email', u_phone = phone,
                       u_password = Bcrypt (the password), u_passwordChangedAt = None,
                       u_tokenVersion = 0, u_loginAttempts = 0, u_lockUntil = None,
                       u_lastLogin = None, u_lastPasswordChange = None,
                       u_isBlocked = False, u_role = role, u_userAward = ''Bronze''\<rparr>
            in Inr (doc, us @ [doc])))"

text \<open>
  \<^verbatim>\<open>user.save()\<close> after \<^verbatim>\<open>user.password = newPassword\<close> on a loaded document:
  validation, the hook (hash, the two time stamps, \<^verbatim>\<open>tokenVersion += 1\<close>), and the
  update of the stored document with the changed paths.
\<close>

definition User_save_password :: "user \<Rightarrow> string \<Rightarrow> int \<Rightarrow> user list \<Rightarrow> exn + (user \<times> user list)" where
  "User_save_password this newPassword now us =
     (let errs = User_validate (Some (u_firstname this)) (Some (u_lastname this))
                   (Some (u_email this)) (Some newPassword) None
      in if errs \<noteq> [] then Inl (validationFailed ''User'' errs)
         else
           (let doc = this\<lparr>u_password := Bcrypt newPassword, u_passwordChangedAt := Some now,
                          u_lastPasswordChange := Some now,
                          u_tokenVersion := u_tokenVersion this + 1\<rparr>
            in Inr (doc, User_update (Some (u_id this))
                 (\<lambda>u. u\<lparr>u_password := u_password doc,
                         u_passwordChangedAt := u_passwordChangedAt doc,
                         u_lastPasswordChange := u_lastPasswordChange doc,
                         u_tokenVersion := u_tokenVersion doc\<rparr>) us)))"

section \<open>Replies\<close>

text \<open>
  A handler ends in one of three ways: it passes an \<^verbatim>\<open>apiError\<close> (message and
  status) to \<^verbatim>\<open>next\<close>; an error it did not catch reaches \<^verbatim>\<open>next\<close> through
  \<^verbatim>\<open>asyncHandler\<close>; or it sends a JSON body with a status.
\<close>

datatype jv = JStr string | JNum int | JBool bool | JHash pwhash

datatype body =
    AuthBody jwt jwt "(string \<times> jv) list"
  | TokenBody jwt jwt
  | MessageBody string

datatype reply = ApiError string nat | Raised exn | Json nat body

text \<open>The random bytes a request draws for the two token identifiers.\<close>

record rnd =
  r_accessJti :: string
  r_refreshJti :: string

definition opt_field :: "string \<Rightarrow> ('a \<Rightarrow> jv) \<Rightarrow> 'a option \<Rightarrow> (string \<times> jv) list" where
  "opt_field k f v = (case v of None \<Rightarrow> [] | Some x \<Rightarrow> [(k, f x)])"

text \<open>\<^verbatim>\<open>user.toObject()\<close> over the modelled fields; an unset field has no key.\<close>

definition toObject :: "user \<Rightarrow> (string \<times> jv) list" where
  "toObject u =
     [(''_id'', JNum (int (u_id u))), (''firstname'', JStr (u_firstname u)),
      (''lastname'', JStr (u_lastname u)), (''email'', JStr (u_email u))]
     @ opt_field ''phone'' JStr (u_phone u)
     @ [(''password'', JHash (u_password u))]
     @ opt_field ''passwordChangedAt'' JNum (u_passwordChangedAt u)
     @ [(''tokenVersion'', JNum (u_tokenVersion u)),
        (''loginAttempts'', JNum (u_loginAttempts u))]
     @ opt_field ''lockUntil'' JNum (u_lockUntil u)
     @ opt_field ''lastLogin'' JNum (u_lastLogin u)
     @ opt_field ''lastPasswordChange'' JNum (u_lastPasswordChange u)
     @ [(''isBlocked'', JBool (u_isBlocked u)), (''role'', JStr (u_role u)),
        (''userAward'', JStr (u_userAward u))]"

text \<open>\<^verbatim>\<open>delete obj[key]\<close>.\<close>

definition delete_key :: "string \<Rightarrow> (string \<times> jv) list \<Rightarrow> (string \<times> jv) list" where
  "delete_key k obj = filter (\<lambda>kv. fst kv \<noteq> k) obj"

section \<open>middlwares/authMiddlwares.js\<close>

record auth_ctx =
  req_user :: user
  req_token :: jwt
  req_session :: "session option"

text \<open>\<^verbatim>\<open>Math.ceil((user.lockUntil - Date.now()) / 1000 / 60)\<close>.\<close>

definition lockTimeRemaining :: "user \<Rightarrow> int \<Rightarrow> int" where
  "lockTimeRemaining u now = - ((- (the (u_lockUntil u) - now)) div (1000 * 60))"

definition msg_notLoggedIn :: string where
  "msg_notLoggedIn = ''You are not logged in. Please login to access this route''"

definition msg_invalidated :: string where
  "msg_invalidated = ''Your session has been invalidated. Please login again''"

definition msg_sessionExpired :: string where
  "msg_sessionExpired = ''Your session has expired. Please login again''"

definition msg_invalidToken :: string where
  "msg_invalidToken = ''Invalid token. Please login again''"

definition msg_userGone :: string where
  "msg_userGone = ''The user that belongs to this token no longer exists''"

definition msg_passwordChanged :: string where
  "msg_passwordChanged = ''Your password was changed. Please login again''"

definition msg_blocked :: string where
  "msg_blocked = ''Your account has been blocked. Contact support for assistance''"

definition msg_locked :: "int \<Rightarrow> string" where
  "msg_locked minutes =
     ''Your account is temporarily locked due to multiple failed login attempts. Try again in ''
       @ show_number minutes @ '' minutes''"

definition msg_inactivity :: "int \<Rightarrow> string" where
  "msg_inactivity minutes =
     ''Your session expired due to '' @ show_number minutes
       @ '' minutes of inactivity. Please login again''"

text \<open>
  \<^verbatim>\<open>requireSignIn\<close>. On success the request carries the user, the token and the
  session (\<open>None\<close> when no active session has the token) to the next handler.
\<close>

definition requireSignIn :: "config \<Rightarrow> int \<Rightarrow> request \<Rightarrow> db \<Rightarrow> (reply + auth_ctx) \<times> db" where
  "requireSignIn cfg now req d =
     (case extractToken req of
        None \<Rightarrow> (Inl (ApiError msg_notLoggedIn 401), d)
      | Some token \<Rightarrow>
          if \<not> tok_truthy token then (Inl (ApiError msg_notLoggedIn 401), d)
          else if isBlacklisted token now (blacklist d)
          then (Inl (ApiError msg_invalidated 401), d)
          else
            (case verifyToken cfg token (Some ''access'') now of
               Inl err \<Rightarrow>
                 (Inl (ApiError
                    (if str_includes (exn_message err) ''expired'' then msg_sessionExpired
                     else if str_includes (exn_message err) ''Invalid'' then msg_invalidToken
                     else exn_message err) 401), d)
             | Inr decoded \<Rightarrow>
                 (case User_findById (tk_id decoded) now d of
                    (None, d1) \<Rightarrow> (Inl (ApiError msg_userGone 401), d1)
                  | (Some user, d1) \<Rightarrow>
                      if tk_tokenVersion decoded \<noteq> None
                         \<and> \<not> isTokenVersionValid user (the (tk_tokenVersion decoded))
                      then
                        (case blacklistToken token (u_id user) (tk_exp decoded * 1000)
                                ''password_change'' no_metadata now (blacklist d1) of
                           Inl e \<Rightarrow> (Inl (Raised e), d1)
                         | Inr bl \<Rightarrow>
                             (Inl (ApiError msg_passwordChanged 401), d1\<lparr>blacklist := bl\<rparr>))
                      else if u_isBlocked user then (Inl (ApiError msg_blocked 403), d1)
                      else if isLocked user now
                      then (Inl (ApiError (msg_locked (lockTimeRemaining user now)) 403), d1)
                      else
                        (case Session_findOne token (u_id user) (sessions d1) of
                           None \<Rightarrow>
                             (Inr \<lparr>req_user = user, req_token = token, req_session = None\<rparr>, d1)
                         | Some session \<Rightarrow>
                             if isInactive session (SESSION_TIMEOUT_MINUTES cfg) now
                             then
                               (case Session_invalidate session ''inactivity_timeout'' now d1 of
                                  (Some e, d2) \<Rightarrow> (Inl (Raised e), d2)
                                | (None, d2) \<Rightarrow>
                                    (Inl (ApiError
                                       (msg_inactivity (SESSION_TIMEOUT_MINUTES cfg)) 401), d2))
                             else
                               (case updateActivity session now d1 of
                                  (doc, d2) \<Rightarrow>
                                    (Inr \<lparr>req_user = user, req_token = token,
                                          req_session = Some doc\<rparr>, d2))))))"

text \<open>
  \<^verbatim>\<open>optionalAuth\<close>: the same checks, but the request always goes on, with the
  user, token and session attached only where every check passed. An error thrown by
  \<^verbatim>\<open>verifyToken\<close> is caught and logged.
\<close>

record optional_ctx =
  opt_user :: "user option"
  opt_token :: "jwt option"
  opt_session :: "session option"

definition anonymous :: optional_ctx where
  "anonymous = \<lparr>opt_user = None, opt_token = None, opt_session = None\<rparr>"

definition optionalAuth :: "config \<Rightarrow> int \<Rightarrow> request \<Rightarrow> db \<Rightarrow> optional_ctx \<times> db" where
  "optionalAuth cfg now req d =
     (case extractToken req of
        None \<Rightarrow> (anonymous, d)
      | Some token \<Rightarrow>
          if \<not> tok_truthy token then (anonymous, d)
          else if isBlacklisted token now (blacklist d) then (anonymous, d)
          else
            (case verifyToken cfg token (Some ''access'') now of
               Inl err \<Rightarrow> (anonymous, d)
             | Inr decoded \<Rightarrow>
                 (case User_findById (tk_id decoded) now d of
                    (None, d1) \<Rightarrow> (anonymous, d1)
                  | (Some user, d1) \<Rightarrow>
                      if \<not> u_isBlocked user \<and> \<not> isLocked user now
                         \<and> (tk_tokenVersion decoded = None
                              \<or> isTokenVersionValid user (the (tk_tokenVersion decoded)))
                      then
                        (case Session_findOne token (u_id user) (sessions d1) of
                           None \<Rightarrow>
                             (\<lparr>opt_user = Some user, opt_token = Some token,
                               opt_session = None\<rparr>, d1)
                         | Some session \<Rightarrow>
                             if \<not> isInactive session (SESSION_TIMEOUT_MINUTES cfg) now
                             then
                               (case updateActivity session now d1 of
                                  (doc, d2) \<Rightarrow>
                                    (\<lparr>opt_user = Some user, opt_token = Some token,
                                      opt_session = Some doc\<rparr>, d2))
                             else
                               (\<lparr>opt_user = Some user, opt_token = Some token,
                                 opt_session = None\<rparr>, d1))
                      else (anonymous, d1))))"

section \<open>controllers/AuthCtr.js\<close>

text \<open>
  The three steps that signup, login and refreshToken each write out: an access
  token, a refresh token, and the session record that binds them.
\<close>

definition issueTokens ::
  "config \<Rightarrow> int \<Rightarrow> rnd \<Rightarrow> user \<Rightarrow> metadata \<Rightarrow> session list
     \<Rightarrow> exn + (jwt \<times> jwt \<times> session list)" where
  "issueTokens cfg now r user md ss =
     (case createToken cfg (u_id user) (u_tokenVersion user) md now (r_accessJti r) of
        Inl e \<Rightarrow> Inl e
      | Inr (accessToken, accessExpiresAt) \<Rightarrow>
          (case createRefreshToken cfg (u_id user) (u_tokenVersion user) md now
                  (r_refreshJti r) of
             Inl e \<Rightarrow> Inl e
           | Inr (refreshToken, refreshExpiresAt) \<Rightarrow>
               (case Session_create (u_id user) accessToken refreshToken md accessExpiresAt
                       now ss of
                  Inl e \<Rightarrow> Inl e
                | Inr ss' \<Rightarrow> Inr (accessToken, refreshToken, ss'))))"

text \<open>
  The settings with which a token pair can be signed: a secret, and lifetimes (the
  configured ones, or the defaults) of the form that \<^verbatim>\<open>parseExpiration\<close> matches.
\<close>

definition tokenSettings :: "config \<Rightarrow> bool" where
  "tokenSettings cfg =
     (truthy (JWT_SECRET cfg)
      \<and> matchExpiration (envOr (JWT_EXPIRES_IN cfg) ''2h'') \<noteq> None
      \<and> matchExpiration (envOr (JWT_REFRESH_EXPIRES_IN cfg) ''7d'') \<noteq> None)"

text \<open>The token identifier that a request draws is not that of a stored session's token.\<close>

definition freshJti :: "rnd \<Rightarrow> session list \<Rightarrow> bool" where
  "freshJti r ss =
     list_all (\<lambda>s. case s_token s of Malformed m \<Rightarrow> True
                              | Signed p k \<Rightarrow> tk_jti p \<noteq> r_accessJti r) ss"

definition signup :: "config \<Rightarrow> int \<Rightarrow> rnd \<Rightarrow> request \<Rightarrow> db \<Rightarrow> reply \<times> db" where
  "signup cfg now r req d =
     (case validatePassword (body_password req) None
             (Some \<lparr>ui_email = body_email req, ui_firstname = body_firstname req,
                    ui_lastname = body_lastname req\<rparr>) of
        Inl e \<Rightarrow> (Raised e, d)
      | Inr passwordValidation \<Rightarrow>
          if \<not> isValid passwordValidation
          then (ApiError (join '', '' (errors passwordValidation)) 400, d)
          else
            (case User_create (body_firstname req) (body_lastname req) (body_email req)
                    (body_password req) (body_phone req) ''user'' (users d) of
               Inl e \<Rightarrow> (Raised e, d)
             | Inr (user, us) \<Rightarrow>
                 (let d1 = d\<lparr>users := us\<rparr> in
                  case issueTokens cfg now r user (getClientMetadata req) (sessions d1) of
                    Inl e \<Rightarrow> (Raised e, d1)
                  | Inr (accessToken, refreshToken, ss) \<Rightarrow>
                      (Json 201 (AuthBody accessToken refreshToken
                                   (delete_key ''password'' (toObject user))),
                       d1\<lparr>sessions := ss\<rparr>))))"

definition msg_loginLocked :: "int \<Rightarrow> string" where
  "msg_loginLocked minutes =
     ''Account temporarily locked due to multiple failed login attempts. Try again in ''
       @ show_number minutes @ '' minutes''"

definition msg_badCredentials :: string where
  "msg_badCredentials = ''Invalid Password or Email''"

definition msg_accountDisabled :: string where
  "msg_accountDisabled = ''Your Account has been disabled''"

text \<open>
  \<^verbatim>\<open>login\<close>. The body it sends holds the document as loaded, without its password;
  the computed properties that \<^verbatim>\<open>toJSON\<close> adds are not modelled. A request without
  a password makes \<^verbatim>\<open>bcrypt.compare\<close> throw.
\<close>

definition login :: "config \<Rightarrow> int \<Rightarrow> rnd \<Rightarrow> request \<Rightarrow> db \<Rightarrow> reply \<times> db" where
  "login cfg now r req d =
     (case User_findOne_email (body_email req) now d of
        (None, d1) \<Rightarrow> (ApiError msg_badCredentials 401, d1)
      | (Some user, d1) \<Rightarrow>
          if isLocked user now
          then (ApiError (msg_loginLocked (lockTimeRemaining user now)) 403, d1)
          else if u_isBlocked user then (ApiError msg_accountDisabled 403, d1)
          else
            (case body_password req of
               None \<Rightarrow> (Raised (Exn ''Error'' ''data and hash arguments required''), d1)
             | Some password \<Rightarrow>
                 if \<not> comparePassword user password
                 then (ApiError msg_badCredentials 401,
                       d1\<lparr>users := incLoginAttempts user now (users d1)\<rparr>)
                 else
                   (let d2 = d1\<lparr>users := resetLoginAttempts user now (users d1)\<rparr> in
                    case issueTokens cfg now r user (getClientMetadata req) (sessions d2) of
                      Inl e \<Rightarrow> (Raised e, d2)
                    | Inr (accessToken, refreshToken, ss) \<Rightarrow>
                        (Json 200 (AuthBody accessToken refreshToken
                                     (delete_key ''password'' (toObject user))),
                         d2\<lparr>sessions := ss\<rparr>))))"

text \<open>\<^verbatim>\<open>adminLogin\<close>: as \<^verbatim>\<open>login\<close>, with the role checked before the lock.\<close>

definition adminLogin :: "config \<Rightarrow> int \<Rightarrow> rnd \<Rightarrow> request \<Rightarrow> db \<Rightarrow> reply \<times> db" where
  "adminLogin cfg now r req d =
     (case User_findOne_email (body_email req) now d of
        (None, d1) \<Rightarrow> (ApiError msg_badCredentials 401, d1)
      | (Some user, d1) \<Rightarrow>
          if u_role user \<noteq> ''admin''
          then (ApiError ''Access denied. Admin privileges required.'' 403, d1)
          else if isLocked user now
          then (ApiError (msg_loginLocked (lockTimeRemaining user now)) 403, d1)
          else if u_isBlocked user then (ApiError msg_accountDisabled 403, d1)
          else
            (case body_password req of
               None \<Rightarrow> (Raised (Exn ''Error'' ''data and hash arguments required''), d1)
             | Some password \<Rightarrow>
                 if \<not> comparePassword user password
                 then (ApiError msg_badCredentials 401,
                       d1\<lparr>users := incLoginAttempts user now (users d1)\<rparr>)
                 else
                   (let d2 = d1\<lparr>users := resetLoginAttempts user now (users d1)\<rparr> in
                    case issueTokens cfg now r user (getClientMetadata req) (sessions d2) of
                      Inl e \<Rightarrow> (Raised e, d2)
                    | Inr (accessToken, refreshToken, ss) \<Rightarrow>
                        (Json 200 (AuthBody accessToken refreshToken
                                     (delete_key ''password'' (toObject user))),
                         d2\<lparr>sessions := ss\<rparr>))))"

definition msg_passwordChangedOk :: string where
  "msg_passwordChangedOk =
     ''Password changed successfully. Please login again with your new password.''"

text \<open>\<^verbatim>\<open>changePassword\<close>, behind \<^verbatim>\<open>requireSignIn\<close>, whose context it reads.\<close>

definition changePassword :: "int \<Rightarrow> request \<Rightarrow> auth_ctx \<Rightarrow> db \<Rightarrow> reply \<times> db" where
  "changePassword now req ctx d =
     (if \<not> truthy (body_currentPassword req) \<or> \<not> truthy (body_newPassword req)
      then (ApiError ''Please provide current password and new password'' 400, d)
      else
        (case User_findById (u_id (req_user ctx)) now d of
           (None, d1) \<Rightarrow> (ApiError ''User not found'' 404, d1)
         | (Some user, d1) \<Rightarrow>
             if \<not> comparePassword user (the (body_currentPassword req))
             then (ApiError ''Current password is incorrect'' 401, d1)
             else
               (case validatePassword (body_newPassword req) (body_confirmPassword req)
                       (Some \<lparr>ui_email = Some (u_email user),
                              ui_firstname = Some (u_firstname user),
                              ui_lastname = Some (u_lastname user)\<rparr>) of
                  Inl e \<Rightarrow> (Raised e, d1)
                | Inr passwordValidation \<Rightarrow>
                    if \<not> isValid passwordValidation
                    then (ApiError (join '', '' (errors passwordValidation)) 400, d1)
                    else
                      (case User_save_password user (the (body_newPassword req)) now
                              (users d1) of
                         Inl e \<Rightarrow> (Raised e, d1)
                       | Inr (doc, us) \<Rightarrow>
                           (case invalidateAllUserSessions (u_id doc) ''password_change'' now
                                   (d1\<lparr>users := us\<rparr>) of
                              (Inl e, d3) \<Rightarrow> (Raised e, d3)
                            | (Inr n, d3) \<Rightarrow>
                                (Json 200 (MessageBody msg_passwordChangedOk), d3))))))"

definition presentedRefreshToken :: "request \<Rightarrow> jwt option" where
  "presentedRefreshToken req =
     (case cookie_refreshToken req of
        Some t \<Rightarrow> if tok_truthy t then Some t else body_refreshToken req
      | None \<Rightarrow> body_refreshToken req)"

definition msg_refreshInvalidated :: string where
  "msg_refreshInvalidated = ''Refresh token has been invalidated. Please login again''"

definition msg_refreshExpired :: string where
  "msg_refreshExpired = ''Refresh token has expired. Please login again''"

definition msg_refreshInvalid :: string where
  "msg_refreshInvalid = ''Invalid refresh token''"

definition msg_refreshDisabled :: string where
  "msg_refreshDisabled = ''Your account has been disabled''"

text \<open>The \<^verbatim>\<open>catch\<close> block of \<^verbatim>\<open>refreshToken\<close>.\<close>

definition refreshToken_catch :: "exn \<Rightarrow> reply" where
  "refreshToken_catch error =
     (if str_includes (exn_message error) ''expired'' then ApiError msg_refreshExpired 401
      else ApiError msg_refreshInvalid 401)"

text \<open>\<^verbatim>\<open>Session.updateOne(filter, { $set: { isActive: false } })\<close>: the first match.\<close>

fun Session_updateOne_inactive :: "jwt \<Rightarrow> nat \<Rightarrow> session list \<Rightarrow> session list" where
  "Session_updateOne_inactive refreshToken userId [] = []"
| "Session_updateOne_inactive refreshToken userId (s # ss) =
     (if s_refreshToken s = Some refreshToken \<and> s_userId s = userId
      then s\<lparr>s_isActive := False\<rparr> # ss
      else s # Session_updateOne_inactive refreshToken userId ss)"

definition refreshToken :: "config \<Rightarrow> int \<Rightarrow> rnd \<Rightarrow> request \<Rightarrow> db \<Rightarrow> reply \<times> db" where
  "refreshToken cfg now r req d =
     (case presentedRefreshToken req of
        None \<Rightarrow> (ApiError ''Refresh token is required'' 400, d)
      | Some token \<Rightarrow>
          if \<not> tok_truthy token then (ApiError ''Refresh token is required'' 400, d)
          else if isBlacklisted token now (blacklist d)
          then (ApiError msg_refreshInvalidated 401, d)
          else
            (case verifyToken cfg token (Some ''refresh'') now of
               Inl e \<Rightarrow> (refreshToken_catch e, d)
             | Inr decoded \<Rightarrow>
                 if tk_type decoded \<noteq> ''refresh'' then (ApiError ''Invalid token type'' 401, d)
                 else
                   (case User_findById (tk_id decoded) now d of
                      (None, d1) \<Rightarrow> (ApiError ''User not found'' 404, d1)
                    | (Some user, d1) \<Rightarrow>
                        if tk_tokenVersion decoded \<noteq> None
                           \<and> \<not> isTokenVersionValid user (the (tk_tokenVersion decoded))
                        then (ApiError msg_passwordChanged 401, d1)
                        else if u_isBlocked user \<or> isLocked user now
                        then (ApiError msg_refreshDisabled 403, d1)
                        else
                          (case blacklistToken token (u_id user) (tk_exp decoded * 1000)
                                  ''token_rotation'' no_metadata now (blacklist d1) of
                             Inl e \<Rightarrow> (refreshToken_catch e, d1)
                           | Inr bl \<Rightarrow>
                               (let d2 = d1\<lparr>blacklist := bl,
                                            sessions := Session_updateOne_inactive token
                                                          (u_id user) (sessions d1)\<rparr> in
                                case issueTokens cfg now r user (getClientMetadata req)
                                       (sessions d2) of
                                  Inl e \<Rightarrow> (refreshToken_catch e, d2)
                                | Inr (newAccessToken, newRefreshToken, ss) \<Rightarrow>
                                    (Json 200 (TokenBody newAccessToken newRefreshToken),
                                     d2\<lparr>sessions := ss\<rparr>))))))"

definition msg_logoutFailed :: string where
  "msg_logoutFailed = ''Logout failed''"

text \<open>
  \<^verbatim>\<open>logout\<close>, behind \<^verbatim>\<open>requireSignIn\<close>. Every error thrown inside its
  \<^verbatim>\<open>try\<close> block ends in the reply of the \<^verbatim>\<open>catch\<close> block; what was written
  before the error stays written.
\<close>

definition logout :: "config \<Rightarrow> int \<Rightarrow> request \<Rightarrow> auth_ctx \<Rightarrow> db \<Rightarrow> reply \<times> db" where
  "logout cfg now req ctx d =
     (let token = req_token ctx in
      if \<not> tok_truthy token then (ApiError ''No active session found'' 400, d)
      else
        (case verifyToken cfg token None now of
           Inl e \<Rightarrow> (ApiError msg_logoutFailed 500, d)
         | Inr decoded \<Rightarrow>
             (case blacklistToken token (u_id (req_user ctx)) (tk_exp decoded * 1000)
                     ''logout'' (getClientMetadata req) now (blacklist d) of
                Inl e \<Rightarrow> (ApiError msg_logoutFailed 500, d)
              | Inr bl \<Rightarrow>
                  (case req_session ctx of
                     None \<Rightarrow>
                       (Json 200 (MessageBody ''Logged out successfully''),
                        d\<lparr>blacklist := bl\<rparr>)
                   | Some session \<Rightarrow>
                       (case Session_invalidate session ''logout'' now (d\<lparr>blacklist := bl\<rparr>) of
                          (Some e, d2) \<Rightarrow> (ApiError msg_logoutFailed 500, d2)
                        | (None, d2) \<Rightarrow>
                            (Json 200 (MessageBody ''Logged out successfully''), d2))))))"

text \<open>The route \<^verbatim>\<open>POST /logout\<close>: \<^verbatim>\<open>requireSignIn\<close>, then \<^verbatim>\<open>logout\<close>.\<close>

definition route_logout :: "config \<Rightarrow> int \<Rightarrow> request \<Rightarrow> db \<Rightarrow> reply \<times> db" where
  "route_logout cfg now req d =
     (case requireSignIn cfg now req d of
        (Inl reply, d1) \<Rightarrow> (reply, d1)
      | (Inr ctx, d1) \<Rightarrow> logout cfg now req ctx d1)"

text \<open>\<^verbatim>\<open>logoutAll\<close>, behind \<^verbatim>\<open>requireSignIn\<close>.\<close>

definition logoutAll :: "int \<Rightarrow> auth_ctx \<Rightarrow> db \<Rightarrow> reply \<times> db" where
  "logoutAll now ctx d =
     (case invalidateAllUserSessions (u_id (req_user ctx)) ''logout_all'' now d of
        (Inl e, d1) \<Rightarrow> (ApiError ''Logout from all devices failed'' 500, d1)
      | (Inr sessionsInvalidated, d1) \<Rightarrow>
          (Json 200 (MessageBody (''Logged out from all devices. ''
                       @ show_number (int sessionsInvalidated) @ '' session(s) invalidated.'')),
           d1))"

text \<open>The route \<^verbatim>\<open>POST /logout/all\<close>.\<close>

definition route_logoutAll :: "config \<Rightarrow> int \<Rightarrow> request \<Rightarrow> db \<Rightarrow> reply \<times> db" where
  "route_logoutAll cfg now req d =
     (case requireSignIn cfg now req d of
        (Inl reply, d1) \<Rightarrow> (reply, d1)
      | (Inr ctx, d1) \<Rightarrow> logoutAll now ctx d1)"

section \<open>Sequences of requests\<close>

text \<open>\<^verbatim>\<open>TokenBlacklist.cleanupExpired\<close> and \<^verbatim>\<open>Session.cleanupInactiveSessions\<close>.\<close>

definition cleanupExpired :: "int \<Rightarrow> bl_entry list \<Rightarrow> nat \<times> bl_entry list" where
  "cleanupExpired now bl =
     (length (filter (\<lambda>e. b_expiresAt e < now) bl), filter (\<lambda>e. \<not> b_expiresAt e < now) bl)"

definition cleanupInactiveSessions :: "int \<Rightarrow> int \<Rightarrow> session list \<Rightarrow> nat \<times> session list" where
  "cleanupInactiveSessions inactivityHours now ss =
     (let cutoffTime = now - inactivityHours * 60 * 60 * 1000;
          gone = (\<lambda>s. s_expiresAt s < now \<or> (s_lastActivity s < cutoffTime \<and> s_isActive s))
      in (length (filter gone ss), filter (\<lambda>s. \<not> gone s) ss))"

text \<open>The route \<^verbatim>\<open>PUT /password\<close>: \<^verbatim>\<open>requireSignIn\<close>, then \<^verbatim>\<open>changePassword\<close>.\<close>

definition route_changePassword :: "config \<Rightarrow> int \<Rightarrow> request \<Rightarrow> db \<Rightarrow> reply \<times> db" where
  "route_changePassword cfg now req d =
     (case requireSignIn cfg now req d of
        (Inl reply, d1) \<Rightarrow> (reply, d1)
      | (Inr ctx, d1) \<Rightarrow> changePassword now req ctx d1)"

text \<open>
  What happens to the stores between two requests of interest: the requests of the
  authentication routes, any request behind \<^verbatim>\<open>requireSignIn\<close> or
  \<^verbatim>\<open>optionalAuth\<close>, and the removal of expired entries and sessions, each at its
  own time.
\<close>

datatype event =
    Signup int rnd request
  | Login int rnd request
  | AdminLogin int rnd request
  | Refresh int rnd request
  | Authenticated int request
  | OptionallyAuthenticated int request
  | Logout int request
  | LogoutAll int request
  | ChangePassword int request
  | CleanupLedger int
  | CleanupSessions int int

fun step :: "config \<Rightarrow> event \<Rightarrow> db \<Rightarrow> db" where
  "step cfg (Signup now r req) d = snd (signup cfg now r req d)"
| "step cfg (Login now r req) d = snd (login cfg now r req d)"
| "step cfg (AdminLogin now r req) d = snd (adminLogin cfg now r req d)"
| "step cfg (Refresh now r req) d = snd (refreshToken cfg now r req d)"
| "step cfg (Authenticated now req) d = snd (requireSignIn cfg now req d)"
| "step cfg (OptionallyAuthenticated now req) d = snd (optionalAuth cfg now req d)"
| "step cfg (Logout now req) d = snd (route_logout cfg now req d)"
| "step cfg (LogoutAll now req) d = snd (route_logoutAll cfg now req d)"
| "step cfg (ChangePassword now req) d = snd (route_changePassword cfg now req d)"
| "step cfg (CleanupLedger now) d = d\<lparr>blacklist := snd (cleanupExpired now (blacklist d))\<rparr>"
| "step cfg (CleanupSessions hours now) d =
     d\<lparr>sessions := snd (cleanupInactiveSessions hours now (sessions d))\<rparr>"

definition run :: "config \<Rightarrow> event list \<Rightarrow> db \<Rightarrow> db" where
  "run cfg evs d = fold (step cfg) evs d"

text \<open>
  An entry of the ledger, or a session, is written with an expiry that is not before
  the expiry of its token.
\<close>

definition expiry_covers :: "jwt \<Rightarrow> int \<Rightarrow> bool" where
  "expiry_covers t x = (case t of Malformed s \<Rightarrow> True | Signed p k \<Rightarrow> tk_exp p * 1000 \<le> x)"

abbreviation entry_covered :: "bl_entry \<Rightarrow> bool" where
  "entry_covered e \<equiv> expiry_covers (b_token e) (b_expiresAt e)"

abbreviation session_covered :: "session \<Rightarrow> bool" where
  "session_covered s \<equiv> expiry_covers (s_token s) (s_expiresAt s)"

definition ledger_ok :: "db \<Rightarrow> bool" where
  "ledger_ok d = (list_all entry_covered (blacklist d) \<and> list_all session_covered (sessions d))"

text \<open>
  The credentials of \<open>us\<close> are still stored in \<open>us'\<close>, none with a lower token
  version.
\<close>

definition versions_grow :: "user list \<Rightarrow> user list \<Rightarrow> bool" where
  "versions_grow us us' =
     (\<forall>i u. find (\<lambda>x. u_id x = i) us = Some u \<longrightarrow>
        (\<exists>u'. find (\<lambda>x. u_id x = i) us' = Some u' \<and> u_tokenVersion u \<le> u_tokenVersion u'))"

section \<open>The strength policy as a list of rules\<close>

text \<open>
  The rules of the password policy, one by one, with the message that reports each:
  length, character classes, common password, repeated-character run, confirmation,
  and the rules against the email's local part, the first name and the last name.
\<close>

datatype rule =
    MinLength | MaxLength | Uppercase | Lowercase | Digit | Special
  | CommonPassword | RepeatedRun | Confirmation | EmailLocalPart | FirstName | LastName

definition all_rules :: "rule list" where
  "all_rules =
     [MinLength, MaxLength, Uppercase, Lowercase, Digit, Special, CommonPassword,
      RepeatedRun, Confirmation, EmailLocalPart, FirstName, LastName]"

fun rule_message :: "rule \<Rightarrow> string" where
  "rule_message MinLength = msg_minLength"
| "rule_message MaxLength = msg_maxLength"
| "rule_message Uppercase = msg_uppercase"
| "rule_message Lowercase = msg_lowercase"
| "rule_message Digit = msg_digit"
| "rule_message Special = msg_special"
| "rule_message CommonPassword = msg_common"
| "rule_message RepeatedRun = msg_repeated"
| "rule_message Confirmation = msg_match"
| "rule_message EmailLocalPart = msg_email"
| "rule_message FirstName = msg_firstname"
| "rule_message LastName = msg_lastname"

fun violates :: "rule \<Rightarrow> string \<Rightarrow> string option \<Rightarrow> userInfo \<Rightarrow> bool" where
  "violates MinLength p c ui = (length p < 8)"
| "violates MaxLength p c ui = (length p > 128)"
| "violates Uppercase p c ui = (\<not> list_ex isUpper p)"
| "violates Lowercase p c ui = (\<not> list_ex isLower p)"
| "violates Digit p c ui = (\<not> list_ex isDigit p)"
| "violates Special p c ui = (\<not> list_ex isSpecial p)"
| "violates CommonPassword p c ui = (toLowerCase p \<in> set commonPasswords)"
| "violates RepeatedRun p c ui = repeatedRun p"
| "violates Confirmation p c ui = (case c of None \<Rightarrow> False | Some c' \<Rightarrow> p \<noteq> c')"
| "violates EmailLocalPart p c ui =
     (truthy (ui_email ui)
      \<and> str_includes (toLowerCase p) (emailLocalPart (the (ui_email ui))))"
| "violates FirstName p c ui =
     (truthy (ui_firstname ui) \<and> length (the (ui_firstname ui)) \<ge> 3
      \<and> str_includes (toLowerCase p) (toLowerCase (the (ui_firstname ui))))"
| "violates LastName p c ui =
     (truthy (ui_lastname ui) \<and> length (the (ui_lastname ui)) \<ge> 3
      \<and> str_includes (toLowerCase p) (toLowerCase (the (ui_lastname ui))))"

text \<open>
  The rules a failure message reports: every violated rule, except that a violated
  name rule is passed over when an earlier user-information rule is violated too.
\<close>

fun reported :: "rule \<Rightarrow> string \<Rightarrow> string option \<Rightarrow> userInfo \<Rightarrow> bool" where
  "reported FirstName p c ui = (violates FirstName p c ui \<and> \<not> violates EmailLocalPart p c ui)"
| "reported LastName p c ui =
     (violates LastName p c ui \<and> \<not> violates EmailLocalPart p c ui
      \<and> \<not> violates FirstName p c ui)"
| "reported r p c ui = violates r p c ui"

section \<open>Example data\<close>

text \<open>
  One credential with a session opened at time 1000000 (milliseconds), under the
  default token lifetimes of two hours and seven days.
\<close>

definition ex_cfg :: config where
  "ex_cfg = \<lparr>JWT_SECRET = Some ''s3cret'', JWT_EXPIRES_IN = None,
             JWT_REFRESH_EXPIRES_IN = None, sessionTimeoutEnv = None\<rparr>"

definition ex_user :: user where
  "ex_user =
     \<lparr>u_id = 1, u_firstname = ''Ann'', u_lastname = ''Lee'', u_email = ''ann@x.com'',
      u_phone = None, u_password = Bcrypt ''Str0ng!Pass99'', u_passwordChangedAt = None,
      u_tokenVersion = 0, u_loginAttempts = 0, u_lockUntil = None, u_lastLogin = None,
      u_lastPasswordChange = None, u_isBlocked = False, u_role = ''user'',
      u_userAward = ''Bronze''\<rparr>"

definition ex_access :: jwt where
  "ex_access =
     Signed \<lparr>tk_id = 1, tk_type = ''access'', tk_tokenVersion = Some 0, tk_jti = ''a1'',
             tk_iat = 1000, tk_exp = 8200, tk_ipAddress = Some ''10.0.0.1'',
             tk_userAgent = Some ''Unknown''\<rparr> ''s3cret''"

definition ex_refresh :: jwt where
  "ex_refresh =
     Signed \<lparr>tk_id = 1, tk_type = ''refresh'', tk_tokenVersion = Some 0, tk_jti = ''b1'',
             tk_iat = 1000, tk_exp = 605800, tk_ipAddress = Some ''10.0.0.1'',
             tk_userAgent = Some ''Unknown''\<rparr> ''s3cret''"

definition ex_session :: session where
  "ex_session =
     \<lparr>s_id = 1, s_userId = 1, s_token = ex_access, s_refreshToken = Some ex_refresh,
      s_ipAddress = Some ''10.0.0.1'', s_userAgent = Some ''Unknown'', s_lastActivity = 1000000,
      s_expiresAt = 8200000, s_isActive = True\<rparr>"

definition ex_db :: db where
  "ex_db = \<lparr>users = [ex_user], posts = [], blacklist = [], sessions = [ex_session]\<rparr>"

definition ex_req :: request where
  "ex_req =
     \<lparr>cookie_accessToken = None, cookie_refreshToken = None, authorization = None,
      req_ip = Some ''10.0.0.1'', remoteAddress = None, header_userAgent = None,
      body_firstname = None, body_lastname = None, body_email = None,
      body_password = None, body_phone = None, body_role = None,
      body_currentPassword = None, body_newPassword = None, body_confirmPassword = None,
      body_refreshToken = None\<rparr>"

definition ex_rnd :: rnd where
  "ex_rnd = \<lparr>r_accessJti = ''a2'', r_refreshJti = ''b2''\<rparr>"

text \<open>The signup that creates the example credential, asking for the role of an admin.\<close>

definition ex_signup_req :: request where
  "ex_signup_req =
     ex_req\<lparr>body_firstname := Some ''Ann'', body_lastname := Some ''Lee'',
            body_email := Some ''ann@x.com'', body_password := Some ''Str0ng!Pass99'',
            body_role := Some ''admin''\<rparr>"

definition ex_rnd1 :: rnd where
  "ex_rnd1 = \<lparr>r_accessJti = ''a1'', r_refreshJti = ''b1''\<rparr>"

definition ex_empty :: db where
  "ex_empty = \<lparr>users = [], posts = [], blacklist = [], sessions = []\<rparr>"

definition ex_identity :: "(string \<times> jv) list" where
  "ex_identity =
     [(''_id'', JNum 1), (''firstname'', JStr ''Ann''), (''lastname'', JStr ''Lee''),
      (''email'', JStr ''ann@x.com''), (''tokenVersion'', JNum 0),
      (''loginAttempts'', JNum 0), (''isBlocked'', JBool False), (''role'', JStr ''user''),
      (''userAward'', JStr ''Bronze'')]"


text \<open>A change of password by the example user, and the stores it leaves.\<close>

definition ex_change_req :: request where
  "ex_change_req =
     ex_req\<lparr>cookie_accessToken := Some ex_access,
            body_currentPassword := Some ''Str0ng!Pass99'',
            body_newPassword := Some ''N3w!Passw0rdX'',
            body_confirmPassword := Some ''N3w!Passw0rdX''\<rparr>"

definition ex_ctx :: auth_ctx where
  "ex_ctx = \<lparr>req_user = ex_user, req_token = ex_access, req_session = Some ex_session\<rparr>"

definition ex_changed :: db where
  "ex_changed =
     \<lparr>users = [ex_user\<lparr>u_password := Bcrypt ''N3w!Passw0rdX'',
                       u_passwordChangedAt := Some 3000000, u_tokenVersion := 1,
                       u_lastPasswordChange := Some 3000000\<rparr>],
      posts = [],
      blacklist = [\<lparr>b_token = ex_access, b_userId = 1, b_reason = ''password_change'',
                    b_expiresAt = 8200000, b_blacklistedAt = 3000000,
                    b_ipAddress = Some ''10.0.0.1'', b_userAgent = Some ''Unknown''\<rparr>],
      sessions = [ex_session\<lparr>s_isActive := False\<rparr>]\<rparr>"

text \<open>The token pair of the same signup made without a client address.\<close>

definition ex_access_noip :: jwt where
  "ex_access_noip =
     Signed \<lparr>tk_id = 1, tk_type = ''access'', tk_tokenVersion = Some 0, tk_jti = ''a1'',
             tk_iat = 1000, tk_exp = 8200, tk_ipAddress = None,
             tk_userAgent = Some ''Unknown''\<rparr> ''s3cret''"

definition ex_refresh_noip :: jwt where
  "ex_refresh_noip =
     Signed \<lparr>tk_id = 1, tk_type = ''refresh'', tk_tokenVersion = Some 0, tk_jti = ''b1'',
             tk_iat = 1000, tk_exp = 605800, tk_ipAddress = None,
             tk_userAgent = Some ''Unknown''\<rparr> ''s3cret''"



text \<open>The example stores with the credential blocked.\<close>

definition ex_blocked :: db where
  "ex_blocked = ex_db\<lparr>users := [ex_user\<lparr>u_isBlocked := True\<rparr>]\<rparr>"

text \<open>Five logins with a wrong password, one millisecond apart, and the right one.\<close>

definition ex_wrong :: request where
  "ex_wrong = ex_req\<lparr>body_email := Some ''ann@x.com'', body_password := Some ''guess''\<rparr>"

definition ex_right :: request where
  "ex_right =
     ex_req\<lparr>body_email := Some ''ann@x.com'', body_password := Some ''Str0ng!Pass99''\<rparr>"

definition ex_d1 :: db where
  "ex_d1 = snd (login ex_cfg 2000001 ex_rnd ex_wrong ex_db)"

definition ex_d2 :: db where
  "ex_d2 = snd (login ex_cfg 2000002 ex_rnd ex_wrong ex_d1)"

definition ex_d3 :: db where
  "ex_d3 = snd (login ex_cfg 2000003 ex_rnd ex_wrong ex_d2)"

definition ex_d4 :: db where
  "ex_d4 = snd (login ex_cfg 2000004 ex_rnd ex_wrong ex_d3)"

definition ex_d5 :: db where
  "ex_d5 = snd (login ex_cfg 2000005 ex_rnd ex_wrong ex_d4)"

definition ex_access2 :: jwt where
  "ex_access2 =
     Signed \<lparr>tk_id = 1, tk_type = ''access'', tk_tokenVersion = Some 0, tk_jti = ''a2'',
             tk_iat = 9200, tk_exp = 16400, tk_ipAddress = Some ''10.0.0.1'',
             tk_userAgent = Some ''Unknown''\<rparr> ''s3cret''"

definition ex_refresh2 :: jwt where
  "ex_refresh2 =
     Signed \<lparr>tk_id = 1, tk_type = ''refresh'', tk_tokenVersion = Some 0, tk_jti = ''b2'',
             tk_iat = 9200, tk_exp = 614000, tk_ipAddress = Some ''10.0.0.1'',
             tk_userAgent = Some ''Unknown''\<rparr> ''s3cret''"

definition ex_session2 :: session where
  "ex_session2 =
     \<lparr>s_id = 2, s_userId = 1, s_token = ex_access2, s_refreshToken = Some ex_refresh2,
      s_ipAddress = Some ''10.0.0.1'', s_userAgent = Some ''Unknown'', s_lastActivity = 9200005,
      s_expiresAt = 16400005, s_isActive = True\<rparr>"

section \<open>Password validation\<close>

lemma strength_reported:
  "validatePasswordStrength (Some p) =
     Inr (map rule_message (filter (\<lambda>r. reported r p c ui)
            [MinLength, MaxLength, Uppercase, Lowercase, Digit, Special, CommonPassword,
             RepeatedRun]))"
  by (simp add: validatePasswordStrength_def)

lemma match_reported:
  "(case c of None \<Rightarrow> []
    | Some c' \<Rightarrow> (case validatePasswordMatch p c' of None \<Rightarrow> [] | Some e \<Rightarrow> [e])) =
   map rule_message (filter (\<lambda>r. reported r p c ui) [Confirmation])"
  by (simp add: validatePasswordMatch_def split: option.splits)

lemma info_reported:
  "(case validatePasswordNoUserInfo p ui of None \<Rightarrow> [] | Some e \<Rightarrow> [e]) =
   map rule_message (filter (\<lambda>r. reported r p c ui) [EmailLocalPart, FirstName, LastName])"
  by (simp add: validatePasswordNoUserInfo_def Let_def)

lemma all_rules_split:
  "all_rules =
     [MinLength, MaxLength, Uppercase, Lowercase, Digit, Special, CommonPassword, RepeatedRun]
     @ [Confirmation] @ [EmailLocalPart, FirstName, LastName]"
  by (simp add: all_rules_def)

lemma errors_reported:
  "validatePassword (Some p) c (Some ui) =
     Inr \<lparr>isValid = (filter (\<lambda>r. reported r p c ui) all_rules = []),
          errors = map rule_message (filter (\<lambda>r. reported r p c ui) all_rules)\<rparr>"
  unfolding validatePassword_def all_rules_split filter_append map_append
  by (simp only: strength_reported [where c = c and ui = ui] match_reported [where ui = ui]
      info_reported [where c = c] sum.case option.case option.sel Let_def
      append_is_Nil_conv map_is_Nil_conv)

lemma none_reported:
  "(filter (\<lambda>r. reported r p c ui) all_rules = []) = (\<forall>r. \<not> violates r p c ui)"
proof -
  have "(filter (\<lambda>r. reported r p c ui) all_rules = [])
          = (\<forall>r \<in> set all_rules. \<not> reported r p c ui)"
    by (simp only: filter_empty_conv)
  also have "\<dots> = (\<forall>r \<in> set all_rules. \<not> violates r p c ui)"
    by (auto simp: all_rules_def)
  also have "\<dots> = (\<forall>r. \<not> violates r p c ui)"
  proof -
    have "r \<in> set all_rules" for r
      by (cases r) (simp_all add: all_rules_def)
    then show ?thesis by blast
  qed
  finally show ?thesis .
qed

text \<open>
  The validation (with user information) is valid exactly when no rule is violated,
  and its errors are the messages of the reported rules, in the order of the policy.
\<close>

lemma validatePassword_reports:
  "validatePassword (Some p) c (Some ui) =
     Inr \<lparr>isValid = (\<forall>r. \<not> violates r p c ui),
          errors = map rule_message (filter (\<lambda>r. reported r p c ui) all_rules)\<rparr>"
  by (simp only: errors_reported none_reported)




section \<open>Facts about the stores\<close>

lemma verifyToken_untyped:
  "verifyToken cfg token (Some t) now = Inr decoded \<Longrightarrow>
   verifyToken cfg token None now = Inr decoded"
  by (auto simp: verifyToken_def truthy_def split: sum.splits if_splits)

lemma Session_findOne_token:
  "Session_findOne token uid ss = Some s \<Longrightarrow> s_token s = token"
  by (auto simp: Session_findOne_def find_Some_iff)

lemma Session_validate_fields [simp]:
  "s_id (Session_validate s) = s_id s" "s_userId (Session_validate s) = s_userId s"
  "s_token (Session_validate s) = s_token s" "s_expiresAt (Session_validate s) = s_expiresAt s"
  "s_ipAddress (Session_validate s) = s_ipAddress s"
  by (simp_all add: Session_validate_def)

lemma Session_validate_idem [simp]: "Session_validate (Session_validate s) = Session_validate s"
  by (simp add: Session_validate_def)

lemma Session_save_validate [simp]: "Session_save (Session_validate s) ss = Session_save s ss"
  by (simp add: Session_save_def)

lemma pre_findOne_frame:
  "posts (pre_findOne c now d) = posts d \<and> blacklist (pre_findOne c now d) = blacklist d
   \<and> sessions (pre_findOne c now d) = sessions d"
  by (simp add: pre_findOne_def Let_def)

lemma User_findById_frame:
  assumes "User_findById uid now d = (found, d1)"
  shows "sessions d1 = sessions d \<and> blacklist d1 = blacklist d"
proof -
  have "d1 = pre_findOne (Some uid) now d"
    using assms by (simp add: User_findById_def Let_def)
  then show ?thesis by (simp add: pre_findOne_frame)
qed

lemma blacklistToken_stores:
  "blacklistToken token uid ex reason md now bl = Inr bl' \<Longrightarrow>
   list_ex (\<lambda>e. b_token e = token) bl'"
  by (auto simp: blacklistToken_def Let_def list_ex_iff split: if_splits)

lemma blacklistToken_duplicate:
  "list_ex (\<lambda>e. b_token e = token) bl \<Longrightarrow>
   \<exists>e. blacklistToken token uid ex reason md now bl = Inl e"
  by (simp add: blacklistToken_def Let_def)

lemma Session_invalidate_users: "users (snd (Session_invalidate s reason now d)) = users d"
  by (simp add: Session_invalidate_def Let_def split: sum.splits)

lemma Session_invalidate_duplicate:
  assumes "list_ex (\<lambda>e. b_token e = s_token s) (blacklist d)"
  shows "\<exists>e d2. Session_invalidate s reason now d = (Some e, d2)"
proof -
  obtain e where
    "blacklistToken (s_token s) (s_userId s) (s_expiresAt s) reason
       \<lparr>md_ipAddress = s_ipAddress s, md_userAgent = s_userAgent s\<rparr> now (blacklist d)
     = Inl e"
    using blacklistToken_duplicate [OF assms] by blast
  then show ?thesis by (simp add: Session_invalidate_def Let_def)
qed

section \<open>Refresh with rotation\<close>

lemma rotation_reason_refused:
  "tok_truthy token \<Longrightarrow>
   blacklistToken token uid ex ''token_rotation'' md now bl =
     Inl (validationFailed ''TokenBlacklist'' [enumError ''reason'' ''token_rotation''])"
  by (simp add: blacklistToken_def TokenBlacklist_validate_def reasonEnum_def Let_def)

lemma rotation_error_caught:
  "refreshToken_catch (validationFailed ''TokenBlacklist''
      [enumError ''reason'' ''token_rotation'']) = ApiError msg_refreshInvalid 401"
  by (simp add: refreshToken_catch_def validationFailed_def enumError_def)

lemma rotation_never:
  "blacklistToken t u x ''token_rotation'' md now bl \<noteq> Inr bl'"
  by (simp add: blacklistToken_def TokenBlacklist_validate_def reasonEnum_def Let_def)

text \<open>
  Claim C1 says that a refresh request with a well-formed, unexpired, non-revoked
  refresh token of an existing, unblocked, unlocked user, the token version matching,
  records a revocation entry with reason \<^verbatim>\<open>token_rotation\<close>, marks the old session
  inactive and returns a new token pair. The code does not: the schema of the ledger
  has no reason \<^verbatim>\<open>token_rotation\<close>, so the entry is refused by validation, the
  error is caught, and every such request is answered 401 ``Invalid refresh token''
  with no entry recorded, no session changed and no token issued.
\<close>

theorem refreshToken_rotation_rejected:
  assumes "presentedRefreshToken req = Some token" and "tok_truthy token"
    and "\<not> isBlacklisted token now (blacklist d)"
    and "verifyToken cfg token (Some ''refresh'') now = Inr decoded"
    and "User_findById (tk_id decoded) now d = (Some user, d1)"
    and "tk_tokenVersion decoded = None
         \<or> isTokenVersionValid user (the (tk_tokenVersion decoded))"
    and "\<not> u_isBlocked user" and "\<not> isLocked user now"
  shows "refreshToken cfg now r req d = (ApiError msg_refreshInvalid 401, d1)
         \<and> sessions d1 = sessions d \<and> blacklist d1 = blacklist d"
proof -
  have ty: "tk_type decoded = ''refresh''"
    using assms(4) by (auto simp: verifyToken_def truthy_def split: sum.splits if_splits)
  have "refreshToken cfg now r req d = (ApiError msg_refreshInvalid 401, d1)"
    using assms ty
    by (auto simp add: refreshToken_def rotation_reason_refused rotation_error_caught)
  with User_findById_frame [OF assms(5)] show ?thesis by simp
qed

theorem refreshToken_rotation_rejected_witness:
  "refreshToken ex_cfg 2000000 ex_rnd (ex_req\<lparr>body_refreshToken := Some ex_refresh\<rparr>) ex_db
   = (ApiError msg_refreshInvalid 401, ex_db)"
proof -
  let ?p = "\<lparr>tk_id = 1, tk_type = ''refresh'', tk_tokenVersion = Some 0, tk_jti = ''b1'',
             tk_iat = 1000, tk_exp = 605800, tk_ipAddress = Some ''10.0.0.1'',
             tk_userAgent = Some ''Unknown''\<rparr>"
  have h1: "presentedRefreshToken (ex_req\<lparr>body_refreshToken := Some ex_refresh\<rparr>)
              = Some ex_refresh"
    by (simp add: presentedRefreshToken_def ex_req_def)
  have h2: "tok_truthy ex_refresh"
    by (simp add: tok_truthy_def ex_refresh_def)
  have h3: "\<not> isBlacklisted ex_refresh 2000000 (blacklist ex_db)"
    by (simp add: isBlacklisted_def ex_db_def)
  have h4: "verifyToken ex_cfg ex_refresh (Some ''refresh'') 2000000 = Inr ?p"
    by (simp add: verifyToken_def jwt_verify_def ex_cfg_def ex_refresh_def truthy_def)
  have h5: "User_findById (tk_id ?p) 2000000 ex_db = (Some ex_user, ex_db)"
    by (simp add: User_findById_def pre_findOne_def ex_db_def ex_user_def)
  have h6: "tk_tokenVersion ?p = None \<or> isTokenVersionValid ex_user (the (tk_tokenVersion ?p))"
    by (simp add: isTokenVersionValid_def ex_user_def)
  have h7: "\<not> u_isBlocked ex_user" by (simp add: ex_user_def)
  have h8: "\<not> isLocked ex_user 2000000" by (simp add: isLocked_def ex_user_def)
  show ?thesis using refreshToken_rotation_rejected [OF h1 h2 h3 h4 h5 h6 h7 h8] by simp
qed

text \<open>
  The check of the ledger comes first: a token with an unexpired entry is refused
  with 401 ``Refresh token has been invalidated'', and nothing is written.
\<close>

lemma refreshToken_listed_refused:
  assumes "presentedRefreshToken req = Some token" and "tok_truthy token"
    and "isBlacklisted token now (blacklist d)"
  shows "refreshToken cfg now r req d = (ApiError msg_refreshInvalidated 401, d)"
  using assms by (simp add: refreshToken_def)

section \<open>Request authentication\<close>

lemma requireSignIn_session:
  assumes "requireSignIn cfg now req d = (Inr ctx, d1)" and "req_session ctx = Some s"
  shows "tok_truthy (req_token ctx) \<and> s_token s = req_token ctx
         \<and> (\<exists>decoded. verifyToken cfg (req_token ctx) (Some ''access'') now = Inr decoded)"
  using assms
  apply (auto simp: requireSignIn_def updateActivity_def Let_def
      split: option.splits if_splits sum.splits prod.splits)
  using Session_findOne_token by blast+

lemma requireSignIn_users:
  assumes tok: "extractToken req = Some token" "tok_truthy token"
    "\<not> isBlacklisted token now (blacklist d)"
    "verifyToken cfg token (Some ''access'') now = Inr decoded"
  shows "users (snd (requireSignIn cfg now req d))
           = users (pre_findOne (Some (tk_id decoded)) now d)"
proof -
  define d1 where "d1 = pre_findOne (Some (tk_id decoded)) now d"
  define found where "found = find (\<lambda>u. u_id u = tk_id decoded) (users d1)"
  have fb: "User_findById (tk_id decoded) now d = (found, d1)"
    by (simp add: User_findById_def Let_def d1_def found_def)
  show ?thesis
  proof (cases found)
    case None
    then show ?thesis using tok fb by (simp add: requireSignIn_def d1_def)
  next
    case (Some user)
    note u = Some
    show ?thesis
    proof (cases "Session_findOne token (u_id user) (sessions d1)")
      case None
      then show ?thesis using tok fb u
        by (simp add: requireSignIn_def d1_def split: sum.splits)
    next
      case (Some s)
      obtain e d2 where inv: "Session_invalidate s ''inactivity_timeout'' now d1 = (e, d2)"
        by (cases "Session_invalidate s ''inactivity_timeout'' now d1")
      then have "users d2 = users d1"
        using Session_invalidate_users [of s "''inactivity_timeout''" now d1] by simp
      then show ?thesis using tok fb u Some inv
        by (simp add: requireSignIn_def d1_def updateActivity_def Let_def
            split: sum.splits option.splits)
    qed
  qed
qed

text \<open>
  Claim C10: when the presented access token passes the extraction, revocation,
  signature, expiry and type, user-existence, token-version, blocked and locked checks
  and no active session record has the token, \<^verbatim>\<open>requireSignIn\<close> succeeds: the request
  goes on with the user and the token and no session attached, and neither the
  sessions nor the ledger are touched.
\<close>

theorem requireSignIn_without_session:
  assumes "extractToken req = Some token" and "tok_truthy token"
    and "\<not> isBlacklisted token now (blacklist d)"
    and "verifyToken cfg token (Some ''access'') now = Inr decoded"
    and "User_findById (tk_id decoded) now d = (Some user, d1)"
    and "tk_tokenVersion decoded = None
         \<or> isTokenVersionValid user (the (tk_tokenVersion decoded))"
    and "\<not> u_isBlocked user" and "\<not> isLocked user now"
    and "Session_findOne token (u_id user) (sessions d1) = None"
  shows "requireSignIn cfg now req d =
           (Inr \<lparr>req_user = user, req_token = token, req_session = None\<rparr>, d1)
         \<and> sessions d1 = sessions d \<and> blacklist d1 = blacklist d"
proof -
  have "requireSignIn cfg now req d =
           (Inr \<lparr>req_user = user, req_token = token, req_session = None\<rparr>, d1)"
    using assms by (auto simp add: requireSignIn_def)
  with User_findById_frame [OF assms(5)] show ?thesis by simp
qed

theorem requireSignIn_without_session_witness:
  "requireSignIn ex_cfg 2000000 (ex_req\<lparr>authorization := Some (Bearer ex_access)\<rparr>)
     (ex_db\<lparr>sessions := []\<rparr>)
   = (Inr \<lparr>req_user = ex_user, req_token = ex_access, req_session = None\<rparr>,
      ex_db\<lparr>sessions := []\<rparr>)"
proof -
  let ?p = "\<lparr>tk_id = 1, tk_type = ''access'', tk_tokenVersion = Some 0, tk_jti = ''a1'',
             tk_iat = 1000, tk_exp = 8200, tk_ipAddress = Some ''10.0.0.1'',
             tk_userAgent = Some ''Unknown''\<rparr>"
  let ?d = "ex_db\<lparr>sessions := []\<rparr>"
  have h1: "extractToken (ex_req\<lparr>authorization := Some (Bearer ex_access)\<rparr>) = Some ex_access"
    by (simp add: extractToken_def ex_req_def)
  have h2: "tok_truthy ex_access"
    by (simp add: tok_truthy_def ex_access_def)
  have h3: "\<not> isBlacklisted ex_access 2000000 (blacklist ?d)"
    by (simp add: isBlacklisted_def ex_db_def)
  have h4: "verifyToken ex_cfg ex_access (Some ''access'') 2000000 = Inr ?p"
    by (simp add: verifyToken_def jwt_verify_def ex_cfg_def ex_access_def truthy_def)
  have h5: "User_findById (tk_id ?p) 2000000 ?d = (Some ex_user, ?d)"
    by (simp add: User_findById_def pre_findOne_def ex_db_def ex_user_def)
  have h6: "tk_tokenVersion ?p = None \<or> isTokenVersionValid ex_user (the (tk_tokenVersion ?p))"
    by (simp add: isTokenVersionValid_def ex_user_def)
  have h7: "\<not> u_isBlocked ex_user" by (simp add: ex_user_def)
  have h8: "\<not> isLocked ex_user 2000000" by (simp add: isLocked_def ex_user_def)
  have h9: "Session_findOne ex_access (u_id ex_user) (sessions ?d) = None"
    by (simp add: Session_findOne_def)
  show ?thesis
    using requireSignIn_without_session [OF h1 h2 h3 h4 h5 h6 h7 h8 h9] by simp
qed

section \<open>Logout\<close>

text \<open>
  Claim C5 says that for an authenticated request whose token resolves to an active
  session, logout records a revocation entry with reason \<^verbatim>\<open>logout\<close>, marks the
  session inactive and completes successfully. The code does not complete: it
  blacklists the token itself and then, through \<^verbatim>\<open>session.invalidate\<close>, a second
  time; the unique index on the token refuses the second entry, and the request is
  answered 500 ``Logout failed''. This holds for every request that
  \<^verbatim>\<open>requireSignIn\<close> passes on with a session.
\<close>

theorem logout_with_session_fails:
  assumes "requireSignIn cfg now req d = (Inr ctx, d1)" and "req_session ctx = Some s"
  shows "fst (logout cfg now req ctx d1) = ApiError msg_logoutFailed 500
         \<and> fst (route_logout cfg now req d) = ApiError msg_logoutFailed 500"
proof -
  from requireSignIn_session [OF assms] obtain decoded where
    t: "tok_truthy (req_token ctx)" and st: "s_token s = req_token ctx"
    and v: "verifyToken cfg (req_token ctx) (Some ''access'') now = Inr decoded"
    by blast
  have v': "verifyToken cfg (req_token ctx) None now = Inr decoded"
    by (rule verifyToken_untyped [OF v])
  have "fst (logout cfg now req ctx d1) = ApiError msg_logoutFailed 500"
  proof (cases "blacklistToken (req_token ctx) (u_id (req_user ctx)) (tk_exp decoded * 1000)
                  ''logout'' (getClientMetadata req) now (blacklist d1)")
    case (Inl e)
    then show ?thesis using t v' by (simp add: logout_def Let_def)
  next
    case (Inr bl)
    have "list_ex (\<lambda>e. b_token e = s_token s) (blacklist (d1\<lparr>blacklist := bl\<rparr>))"
      using blacklistToken_stores [OF Inr] st by simp
    from Session_invalidate_duplicate [OF this] obtain e d2 where
      "Session_invalidate s ''logout'' now (d1\<lparr>blacklist := bl\<rparr>) = (Some e, d2)" by blast
    then show ?thesis using t v' Inr assms(2) by (simp add: logout_def Let_def)
  qed
  then show ?thesis using assms(1) by (simp add: route_logout_def)
qed

theorem logout_with_session_fails_witness:
  "route_logout ex_cfg 2000000 (ex_req\<lparr>cookie_accessToken := Some ex_access\<rparr>) ex_db
     = (ApiError msg_logoutFailed 500,
        ex_db\<lparr>blacklist :=
                 [\<lparr>b_token = ex_access, b_userId = 1, b_reason = ''logout'',
                   b_expiresAt = 8200000, b_blacklistedAt = 2000000,
                   b_ipAddress = Some ''10.0.0.1'', b_userAgent = Some ''Unknown''\<rparr>],
              sessions := [ex_session\<lparr>s_lastActivity := 2000000, s_isActive := False\<rparr>]\<rparr>)"
proof -
  let ?req = "ex_req\<lparr>cookie_accessToken := Some ex_access\<rparr>"
  let ?s = "ex_session\<lparr>s_lastActivity := 2000000\<rparr>"
  let ?ctx = "\<lparr>req_user = ex_user, req_token = ex_access, req_session = Some ?s\<rparr>"
  have h1: "requireSignIn ex_cfg 2000000 ?req ex_db = (Inr ?ctx, ex_db\<lparr>sessions := [?s]\<rparr>)"
    by (simp add: requireSignIn_def extractToken_def ex_req_def tok_truthy_def ex_access_def
        isBlacklisted_def ex_db_def verifyToken_def jwt_verify_def ex_cfg_def truthy_def
        User_findById_def pre_findOne_def ex_user_def isTokenVersionValid_def isLocked_def
        Session_findOne_def ex_session_def isInactive_def SESSION_TIMEOUT_MINUTES_def
        updateActivity_def Session_save_def Session_validate_def Let_def)
  have h2: "req_session ?ctx = Some ?s" by simp
  have st: "snd (route_logout ex_cfg 2000000 ?req ex_db)
              = ex_db\<lparr>blacklist :=
                 [\<lparr>b_token = ex_access, b_userId = 1, b_reason = ''logout'',
                   b_expiresAt = 8200000, b_blacklistedAt = 2000000,
                   b_ipAddress = Some ''10.0.0.1'', b_userAgent = Some ''Unknown''\<rparr>],
              sessions := [ex_session\<lparr>s_lastActivity := 2000000, s_isActive := False\<rparr>]\<rparr>"
    by code_simp
  have "fst (route_logout ex_cfg 2000000 ?req ex_db) = ApiError msg_logoutFailed 500"
    using logout_with_session_fails [OF h1 h2] by simp
  with st show ?thesis by (simp add: prod_eq_iff)
qed

section \<open>The hook on credential lookups\<close>





section \<open>Issuing a token pair\<close>

lemma createToken_Inr:
  assumes "tokenSettings cfg"
  shows "\<exists>p x. createToken cfg uid v md now jti = Inr (Signed p (the (JWT_SECRET cfg)), x)
               \<and> tk_jti p = jti"
  using assms
  by (auto simp: tokenSettings_def createToken_def parseExpiration_def jwt_sign_def)

lemma createRefreshToken_Inr:
  assumes "tokenSettings cfg"
  shows "\<exists>t x. createRefreshToken cfg uid v md now jti = Inr (t, x)"
  using assms
  by (auto simp: tokenSettings_def createRefreshToken_def parseExpiration_def jwt_sign_def)

text \<open>
  With the settings in place and a token identifier that no stored session has, the
  pair is signed and its session is stored.
\<close>

lemma issueTokens_Inr:
  assumes "tokenSettings cfg" and "freshJti r ss"
  shows "\<exists>a rt ss'. issueTokens cfg now r user md ss = Inr (a, rt, ss')"
proof -
  from createToken_Inr [OF assms(1)] obtain p x where
    a: "createToken cfg (u_id user) (u_tokenVersion user) md now (r_accessJti r)
          = Inr (Signed p (the (JWT_SECRET cfg)), x)" "tk_jti p = r_accessJti r"
    by blast
  from createRefreshToken_Inr [OF assms(1)] obtain t y where
    b: "createRefreshToken cfg (u_id user) (u_tokenVersion user) md now (r_refreshJti r)
          = Inr (t, y)"
    by blast
  have "\<not> list_ex (\<lambda>s. s_token s = Signed p (the (JWT_SECRET cfg))) ss"
    using assms(2) a(2) by (auto simp: freshJti_def list_all_iff list_ex_iff)
  then show ?thesis using a(1) b by (simp add: issueTokens_def Session_create_def Let_def)
qed

lemma issueTokens_session:
  "issueTokens cfg now r user md ss = Inr (a, rt, ss') \<Longrightarrow>
   list_ex (\<lambda>s. s_token s = a \<and> s_userId s = u_id user) ss'"
  by (auto simp: issueTokens_def Session_create_def Let_def split: sum.splits if_splits)

section \<open>Signup\<close>

lemma User_create_Inr:
  "User_create f l e p ph role us = Inr (user, us') \<Longrightarrow>
   us' = us @ [user] \<and> u_role user = role"
  by (auto simp: User_create_def Let_def split: if_splits)

text \<open>
  Claim C6: the credential record that signup creates has the role \<^verbatim>\<open>user\<close>,
  whatever the request body gives as role: two requests that differ only in that
  field have the same reply and leave the same stores, and a signup either leaves the
  users as they were or adds one record, of role \<^verbatim>\<open>user\<close>.
\<close>

theorem signup_role_forced:
  "signup cfg now r (req\<lparr>body_role := x\<rparr>) d = signup cfg now r req d
   \<and> (users (snd (signup cfg now r req d)) = users d
      \<or> (\<exists>u. users (snd (signup cfg now r req d)) = users d @ [u] \<and> u_role u = ''user''))"
proof -
  have a: "signup cfg now r (req\<lparr>body_role := x\<rparr>) d = signup cfg now r req d"
    by (simp add: signup_def getClientMetadata_def
        cong: sum.case_cong if_cong prod.case_cong)
  have b: "users (snd (signup cfg now r req d)) = users d
      \<or> (\<exists>u. users (snd (signup cfg now r req d)) = users d @ [u] \<and> u_role u = ''user'')"
    by (auto simp: signup_def Let_def split: sum.splits prod.splits dest!: User_create_Inr)
  from a b show ?thesis by simp
qed

lemma toObject_no_hash:
  "JHash h \<notin> snd ` set (delete_key ''password'' (toObject u))"
  by (auto simp: delete_key_def toObject_def opt_field_def split: option.splits)

lemma delete_key_removes:
  "''password'' \<notin> fst ` set (delete_key ''password'' obj)"
  by (auto simp: delete_key_def)

text \<open>
  The store accepts a new credential that has both names, an email that is not empty
  once trimmed and not that of a stored credential, and a password of eight
  characters or more.
\<close>

lemma User_create_accepts:
  assumes "truthy f" and "truthy l" and "e \<noteq> None" and "trim (the e) \<noteq> []"
    and "p \<noteq> None" and "8 \<le> length (the p)"
    and "\<not> list_ex (\<lambda>u. u_email u = trim (the e)) us"
  shows "\<exists>doc. User_create f l e p ph ''user'' us = Inr (doc, us @ [doc])
               \<and> u_email doc = trim (the e) \<and> u_role doc = ''user''"
  using assms
  by (auto simp: User_create_def User_validate_def truthy_def Let_def)

text \<open>
  Claim C8: whenever signup answers with an identity, that identity has no
  \<^verbatim>\<open>password\<close> field and the hash is not the value of any of its fields. And a
  valid signup is answered so: when the request has both names, an email that no
  stored credential has and a password that violates no rule of the policy, the token
  settings being in place and the token identifier drawn a new one, the reply is 201
  with a token pair and the created credential without its password, whether or not
  the request has a client address.
\<close>

theorem signup_hides_password:
  "(\<forall>st b. fst (signup cfg now r req d) = Json st b \<longrightarrow>
      (\<exists>a rt data. b = AuthBody a rt data \<and> ''password'' \<notin> fst ` set data
           \<and> (\<forall>h. JHash h \<notin> snd ` set data)))
   \<and> (\<forall>p e.
        truthy (body_firstname req) \<and> truthy (body_lastname req)
        \<and> body_email req = Some e \<and> trim e \<noteq> []
        \<and> \<not> list_ex (\<lambda>u. u_email u = trim e) (users d)
        \<and> body_password req = Some p
        \<and> (\<forall>x. \<not> violates x p None
                   \<lparr>ui_email = body_email req, ui_firstname = body_firstname req,
                    ui_lastname = body_lastname req\<rparr>)
        \<and> tokenSettings cfg \<and> freshJti r (sessions d)
        \<longrightarrow>
        (\<exists>a rt ss user.
           signup cfg now r req d
             = (Json 201 (AuthBody a rt (delete_key ''password'' (toObject user))),
                d\<lparr>users := users d @ [user], sessions := ss\<rparr>)
           \<and> u_email user = trim e
           \<and> ''password'' \<notin> fst ` set (delete_key ''password'' (toObject user))
           \<and> (\<forall>h. JHash h \<notin> snd ` set (delete_key ''password'' (toObject user)))))"
proof -
  have a: "\<exists>a rt data. b = AuthBody a rt data \<and> ''password'' \<notin> fst ` set data
           \<and> (\<forall>h. JHash h \<notin> snd ` set data)"
    if "fst (signup cfg now r req d) = Json st b" for st b
    using that toObject_no_hash delete_key_removes
    by (auto simp: signup_def Let_def split: sum.splits prod.splits if_splits)
  have b: "\<exists>a rt ss user.
           signup cfg now r req d
             = (Json 201 (AuthBody a rt (delete_key ''password'' (toObject user))),
                d\<lparr>users := users d @ [user], sessions := ss\<rparr>)
           \<and> u_email user = trim e
           \<and> ''password'' \<notin> fst ` set (delete_key ''password'' (toObject user))
           \<and> (\<forall>h. JHash h \<notin> snd ` set (delete_key ''password'' (toObject user)))"
    if n: "truthy (body_firstname req)" "truthy (body_lastname req)"
      and e: "body_email req = Some e" "trim e \<noteq> []"
        "\<not> list_ex (\<lambda>u. u_email u = trim e) (users d)"
      and p: "body_password req = Some p"
        "\<forall>x. \<not> violates x p None
                   \<lparr>ui_email = body_email req, ui_firstname = body_firstname req,
                    ui_lastname = body_lastname req\<rparr>"
      and s: "tokenSettings cfg" "freshJti r (sessions d)"
    for p e
  proof -
    have v: "validatePassword (body_password req) None
               (Some \<lparr>ui_email = body_email req, ui_firstname = body_firstname req,
                      ui_lastname = body_lastname req\<rparr>)
             = Inr \<lparr>isValid = True,
                    errors = map rule_message
                      (filter (\<lambda>x. reported x p None
                         \<lparr>ui_email = body_email req, ui_firstname = body_firstname req,
                          ui_lastname = body_lastname req\<rparr>) all_rules)\<rparr>"
      using p by (simp add: validatePassword_reports)
    have "\<not> violates MinLength p None
               \<lparr>ui_email = body_email req, ui_firstname = body_firstname req,
                ui_lastname = body_lastname req\<rparr>"
      using p(2) by blast
    then have len: "8 \<le> length p" by simp
    from User_create_accepts [of "body_firstname req" "body_lastname req" "body_email req"
        "body_password req" "users d" "body_phone req"] n e p(1) len
    obtain user where
      c: "User_create (body_firstname req) (body_lastname req) (body_email req)
            (body_password req) (body_phone req) ''user'' (users d)
          = Inr (user, users d @ [user])" "u_email user = trim e"
      by auto
    from issueTokens_Inr [OF s(1), of r "sessions d" now user "getClientMetadata req"] s(2)
    obtain a rt ss where
      "issueTokens cfg now r user (getClientMetadata req) (sessions d) = Inr (a, rt, ss)"
      by blast
    then have "signup cfg now r req d
             = (Json 201 (AuthBody a rt (delete_key ''password'' (toObject user))),
                d\<lparr>users := users d @ [user], sessions := ss\<rparr>)"
      using v c(1) by (simp add: signup_def)
    then show ?thesis using delete_key_removes toObject_no_hash c(2) by blast
  qed
  from a b show ?thesis by blast
qed

lemma ex_signup:
  "signup ex_cfg 1000000 ex_rnd1 ex_signup_req ex_empty
     = (Json 201 (AuthBody ex_access ex_refresh ex_identity), ex_db)"
  by code_simp

theorem signup_role_forced_witness:
  "signup ex_cfg 1000000 ex_rnd1 (ex_signup_req\<lparr>body_role := Some ''user''\<rparr>) ex_empty
     = (Json 201 (AuthBody ex_access ex_refresh ex_identity), ex_db)
   \<and> map u_role (users ex_db) = [''user'']"
proof -
  have "map u_role (users ex_db) = [''user'']"
    by (simp add: ex_db_def ex_user_def)
  then show ?thesis
    using signup_role_forced [where cfg = ex_cfg and now = 1000000 and r = ex_rnd1
        and req = ex_signup_req and x = "Some ''user''" and d = ex_empty]
      ex_signup
    by simp
qed

theorem signup_hides_password_witness:
  "fst (signup ex_cfg 1000000 ex_rnd1 ex_signup_req ex_empty)
     = Json 201 (AuthBody ex_access ex_refresh ex_identity)
   \<and> ''password'' \<notin> fst ` set ex_identity
   \<and> (\<exists>a rt ss user.
         signup ex_cfg 1000000 ex_rnd1 (ex_signup_req\<lparr>req_ip := None\<rparr>) ex_empty
           = (Json 201 (AuthBody a rt (delete_key ''password'' (toObject user))),
              ex_empty\<lparr>users := users ex_empty @ [user], sessions := ss\<rparr>)
         \<and> u_email user = ''ann@x.com'')
   \<and> fst (signup ex_cfg 1000000 ex_rnd1 (ex_signup_req\<lparr>req_ip := None\<rparr>) ex_empty)
       = Json 201 (AuthBody ex_access_noip ex_refresh_noip ex_identity)
   \<and> map s_isActive (sessions (snd (signup ex_cfg 1000000 ex_rnd1
                                        (ex_signup_req\<lparr>req_ip := None\<rparr>) ex_empty)))
       = [False]"
proof -
  let ?req = "ex_signup_req\<lparr>req_ip := None\<rparr>"
  have h: "fst (signup ex_cfg 1000000 ex_rnd1 ex_signup_req ex_empty)
             = Json 201 (AuthBody ex_access ex_refresh ex_identity)"
    by (simp add: ex_signup)
  have n: "truthy (body_firstname ?req)" "truthy (body_lastname ?req)"
    by (simp_all add: ex_signup_req_def truthy_def)
  have e: "body_email ?req = Some ''ann@x.com''" "trim ''ann@x.com'' \<noteq> []"
    "\<not> list_ex (\<lambda>u. u_email u = trim ''ann@x.com'') (users ex_empty)"
    by (simp_all add: ex_signup_req_def ex_empty_def trim_def isSpace_def)
  have tr: "trim ''ann@x.com'' = ''ann@x.com''"
    by (simp add: trim_def isSpace_def)
  have p: "body_password ?req = Some ''Str0ng!Pass99''"
    by (simp add: ex_signup_req_def)
  have "filter (\<lambda>x. reported x ''Str0ng!Pass99'' None
                     \<lparr>ui_email = body_email ?req, ui_firstname = body_firstname ?req,
                      ui_lastname = body_lastname ?req\<rparr>) all_rules = []"
    by code_simp
  then have q: "\<forall>x. \<not> violates x ''Str0ng!Pass99'' None
                     \<lparr>ui_email = body_email ?req, ui_firstname = body_firstname ?req,
                      ui_lastname = body_lastname ?req\<rparr>"
    using none_reported by blast
  have s: "tokenSettings ex_cfg" "freshJti ex_rnd1 (sessions ex_empty)"
    by code_simp+
  note inst = signup_hides_password [where cfg = ex_cfg and now = 1000000 and r = ex_rnd1
      and d = ex_empty]
  from inst [where req = ex_signup_req] h
  have a: "''password'' \<notin> fst ` set ex_identity" by auto
  from inst [where req = ?req] n e p q s
  have b: "\<exists>a rt ss user.
         signup ex_cfg 1000000 ex_rnd1 ?req ex_empty
           = (Json 201 (AuthBody a rt (delete_key ''password'' (toObject user))),
              ex_empty\<lparr>users := users ex_empty @ [user], sessions := ss\<rparr>)
         \<and> u_email user = trim ''ann@x.com''"
    by blast
  have c: "fst (signup ex_cfg 1000000 ex_rnd1 ?req ex_empty)
       = Json 201 (AuthBody ex_access_noip ex_refresh_noip ex_identity)"
    by code_simp
  have d: "map s_isActive (sessions (snd (signup ex_cfg 1000000 ex_rnd1 ?req ex_empty)))
       = [False]"
    by code_simp
  from h a b c d show ?thesis by (simp only: tr) simp
qed


section \<open>Lookups after an update\<close>

lemma find_map_preserve:
  "(\<And>x. P (g x) = P x) \<Longrightarrow> find P (map g xs) = map_option g (find P xs)"
  by (induction xs) auto

lemma find_User_update:
  assumes "\<And>u. u_id (f u) = u_id u"
  shows "find (\<lambda>u. u_id u = i) (User_update c f us)
           = map_option (\<lambda>u. if Some (u_id u) = c then f u else u)
               (find (\<lambda>u. u_id u = i) us)"
  unfolding User_update_def using assms by (intro find_map_preserve) auto

lemma find_id: "find (\<lambda>u. u_id u = i) us = Some u \<Longrightarrow> u_id u = i"
  by (auto simp: find_Some_iff)

lemma find_email_update:
  assumes "find (\<lambda>u. u_email u = e) us = Some u" and "\<And>v. u_email (f v) = u_email v"
  shows "find (\<lambda>u. u_email u = e) (User_update (Some (u_id u)) f us) = Some (f u)"
proof -
  have "find (\<lambda>u. u_email u = e)
          (map (\<lambda>v. if Some (u_id v) = Some (u_id u) then f v else v) us)
        = map_option (\<lambda>v. if Some (u_id v) = Some (u_id u) then f v else v)
            (find (\<lambda>u. u_email u = e) us)"
    by (rule find_map_preserve) (simp add: assms(2))
  then show ?thesis using assms(1) by (simp add: User_update_def)
qed

lemma pre_findOne_None: "pre_findOne None now d = d"
  by (simp add: pre_findOne_def)

lemma pre_findOne_find:
  "find (\<lambda>u. u_id u = i) (users d) = Some u \<Longrightarrow>
   \<exists>u'. find (\<lambda>u. u_id u = i) (users (pre_findOne c now d)) = Some u'
        \<and> u_tokenVersion u' = u_tokenVersion u \<and> u_id u' = u_id u"
  by (auto simp: pre_findOne_def Let_def find_User_update)

section \<open>Replay of a refresh token\<close>





text \<open>No refresh request is ever answered with a token pair.\<close>

lemma refreshToken_never_issues: "fst (refreshToken cfg now r req d) \<noteq> Json st b"
  by (auto simp: refreshToken_def refreshToken_catch_def rotation_never
      split: option.splits sum.splits prod.splits)



section \<open>Password change\<close>

lemma invalidate_each_users:
  "users (snd (invalidate_each ss uid reason now d)) = users d"
  by (induction ss arbitrary: d) (auto simp: Let_def split: sum.splits)

lemma invalidateAll_users:
  "invalidateAllUserSessions uid reason now d = (res, d') \<Longrightarrow> users d' = users d"
  using invalidate_each_users
    [of "filter (\<lambda>s. s_userId s = uid \<and> s_isActive s) (sessions d)" uid reason now d]
  by (auto simp: invalidateAllUserSessions_def Let_def split: prod.splits option.splits)

lemma User_save_password_Inr:
  "User_save_password this pw now us = Inr (doc, us') \<Longrightarrow>
   u_id doc = u_id this \<and>
   us' = User_update (Some (u_id this))
           (\<lambda>u. u\<lparr>u_password := Bcrypt pw, u_passwordChangedAt := Some now,
                   u_lastPasswordChange := Some now,
                   u_tokenVersion := u_tokenVersion this + 1\<rparr>) us"
  by (auto simp: User_save_password_def Let_def split: if_splits)

lemma changePassword_ok:
  assumes cp: "changePassword now req ctx d = (Json st b, d')"
    and fb: "User_findById (u_id (req_user ctx)) now d = (Some user, d1)"
  shows "users d' = User_update (Some (u_id user))
           (\<lambda>u. u\<lparr>u_password := Bcrypt (the (body_newPassword req)),
                   u_passwordChangedAt := Some now, u_lastPasswordChange := Some now,
                   u_tokenVersion := u_tokenVersion user + 1\<rparr>) (users d1)"
proof -
  from cp fb obtain doc us where
    sv: "User_save_password user (the (body_newPassword req)) now (users d1) = Inr (doc, us)"
    by (auto simp: changePassword_def split: if_splits sum.splits prod.splits)
  from cp fb sv obtain res where
    "invalidateAllUserSessions (u_id doc) ''password_change'' now (d1\<lparr>users := us\<rparr>)
       = (res, d')"
    by (auto simp: changePassword_def split: if_splits sum.splits prod.splits)
  from invalidateAll_users [OF this] have "users d' = us" by simp
  with User_save_password_Inr [OF sv] show ?thesis by simp
qed

section \<open>What every request preserves\<close>

text \<open>
  Two properties of the stores hold after every request when they hold before it:
  expiries cover the tokens (\<open>ledger_ok\<close>), and no credential disappears or takes a
  lower token version (\<open>versions_grow\<close>).
\<close>

lemma floor_seconds: "((now::int) div 1000 + ms div 1000) * 1000 \<le> now + ms"
proof -
  have "now = (now div 1000) * 1000 + now mod 1000" by simp
  moreover have "ms = (ms div 1000) * 1000 + ms mod 1000" by simp
  moreover have "0 \<le> now mod 1000" "0 \<le> ms mod 1000" by simp_all
  ultimately show ?thesis by (simp add: algebra_simps)
qed

lemma createToken_covers:
  "createToken cfg uid v md now jti = Inr (t, x) \<Longrightarrow> expiry_covers t x"
  using floor_seconds
  by (auto simp: createToken_def jwt_sign_def expiry_covers_def split: sum.splits if_splits)

lemma blacklistToken_ok:
  "blacklistToken t u x reason md now bl = Inr bl' \<Longrightarrow> list_all entry_covered bl \<Longrightarrow> expiry_covers t x
   \<Longrightarrow> list_all entry_covered bl'"
  by (auto simp: blacklistToken_def Let_def split: if_splits)

lemma Session_create_ok:
  "Session_create u t rt md x now ss = Inr ss' \<Longrightarrow> list_all session_covered ss \<Longrightarrow> expiry_covers t x
   \<Longrightarrow> list_all session_covered ss'"
  by (auto simp: Session_create_def Let_def split: if_splits)

lemma Session_save_ok:
  "list_all session_covered ss \<Longrightarrow> session_covered doc \<Longrightarrow> list_all session_covered (Session_save doc ss)"
  by (auto simp: Session_save_def list_all_iff)

lemma issueTokens_ok:
  "issueTokens cfg now r user md ss = Inr (a, rt, ss') \<Longrightarrow> list_all session_covered ss \<Longrightarrow> list_all session_covered ss'"
  by (auto simp: issueTokens_def split: sum.splits prod.splits
      dest!: createToken_covers intro: Session_create_ok)

lemma ledger_ok_empty: "ledger_ok \<lparr>users = us, posts = ps, blacklist = [], sessions = []\<rparr>"
  by (simp add: ledger_ok_def)

lemma pre_findOne_ok: "ledger_ok (pre_findOne c now d) = ledger_ok d"
  by (simp add: ledger_ok_def pre_findOne_frame)

lemma Session_invalidate_ok:
  assumes "ledger_ok d" and "session_covered s"
  shows "ledger_ok (snd (Session_invalidate s reason now d))"
proof -
  let ?doc = "s\<lparr>s_isActive := False\<rparr>"
  have s: "list_all session_covered (Session_save ?doc (sessions d))"
    using assms by (intro Session_save_ok) (simp_all add: ledger_ok_def)
  show ?thesis
  proof (cases "blacklistToken (s_token ?doc) (s_userId ?doc) (s_expiresAt ?doc) reason
                \<lparr>md_ipAddress = s_ipAddress ?doc, md_userAgent = s_userAgent ?doc\<rparr>
                now (blacklist d)")
    case (Inl e)
    then show ?thesis using s assms(1) by (simp add: Session_invalidate_def Let_def ledger_ok_def)
  next
    case (Inr bl)
    from blacklistToken_ok [OF Inr] assms have "list_all entry_covered bl" by (simp add: ledger_ok_def)
    then show ?thesis using s Inr by (simp add: Session_invalidate_def Let_def ledger_ok_def)
  qed
qed

lemma invalidate_each_ok:
  "ledger_ok d \<Longrightarrow> list_all session_covered ss \<Longrightarrow> ledger_ok (snd (invalidate_each ss uid reason now d))"
proof (induction ss arbitrary: d)
  case Nil
  then show ?case by simp
next
  case (Cons s rest)
  let ?doc = "s\<lparr>s_isActive := False\<rparr>"
  let ?d1 = "d\<lparr>sessions := Session_save ?doc (sessions d)\<rparr>"
  have d1: "ledger_ok ?d1"
    using Cons.prems Session_save_ok [of "sessions d" ?doc] by (simp add: ledger_ok_def)
  show ?case
  proof (cases "blacklistToken (s_token ?doc) uid (s_expiresAt ?doc) reason
                \<lparr>md_ipAddress = s_ipAddress ?doc, md_userAgent = s_userAgent ?doc\<rparr>
                now (blacklist ?d1)")
    case (Inl e)
    then show ?thesis using d1 by (simp add: Let_def)
  next
    case (Inr bl)
    from blacklistToken_ok [OF Inr] d1 Cons.prems(2)
    have "ledger_ok (?d1\<lparr>blacklist := bl\<rparr>)" by (simp add: ledger_ok_def)
    from Cons.IH [OF this] Cons.prems(2) show ?thesis using Inr by (simp add: Let_def)
  qed
qed

lemma invalidateAll_ok:
  assumes "ledger_ok d"
  shows "ledger_ok (snd (invalidateAllUserSessions uid reason now d))"
proof -
  let ?found = "filter (\<lambda>s. s_userId s = uid \<and> s_isActive s) (sessions d)"
  have "list_all session_covered ?found" using assms by (simp add: ledger_ok_def list_all_iff)
  from invalidate_each_ok [OF assms this, of uid reason now] show ?thesis
    by (cases "invalidate_each ?found uid reason now d")
       (auto simp: invalidateAllUserSessions_def Let_def split: option.splits)
qed


lemma verify_covers:
  "verifyToken cfg t ty now = Inr p \<Longrightarrow> expiry_covers t (tk_exp p * 1000)"
  by (auto simp: verifyToken_def jwt_verify_def expiry_covers_def
      split: sum.splits jwt.splits if_splits)

lemma User_findById_ok:
  "User_findById uid now d = (found, d1) \<Longrightarrow> ledger_ok d1 = ledger_ok d"
  by (auto simp: User_findById_def Let_def pre_findOne_ok)

lemma Session_findOne_ok:
  "Session_findOne t uid ss = Some s \<Longrightarrow> list_all session_covered ss \<Longrightarrow> session_covered s"
  by (auto simp: Session_findOne_def find_Some_iff list_all_iff)

lemma requireSignIn_ok:
  assumes ok: "ledger_ok d"
  shows "ledger_ok (snd (requireSignIn cfg now req d))"
    and "fst (requireSignIn cfg now req d) = Inr ctx \<Longrightarrow> req_session ctx = Some s \<Longrightarrow> session_covered s"
proof -
  have "ledger_ok (snd (requireSignIn cfg now req d))
        \<and> (fst (requireSignIn cfg now req d) = Inr ctx \<longrightarrow> req_session ctx = Some s \<longrightarrow> session_covered s)"
  proof (cases "extractToken req")
    case None
    then show ?thesis using ok by (simp add: requireSignIn_def)
  next
    case (Some token)
    note tk = Some
    show ?thesis
    proof (cases "tok_truthy token \<and> \<not> isBlacklisted token now (blacklist d)")
      case False
      then show ?thesis using ok tk by (auto simp add: requireSignIn_def)
    next
      case True
      note pass = True
      show ?thesis
      proof (cases "verifyToken cfg token (Some ''access'') now")
        case (Inl e)
        then show ?thesis using ok tk pass by (simp add: requireSignIn_def)
      next
        case (Inr decoded)
        note v = Inr
        obtain found d1 where fb: "User_findById (tk_id decoded) now d = (found, d1)"
          by (cases "User_findById (tk_id decoded) now d")
        have ok1: "ledger_ok d1" using User_findById_ok [OF fb] ok by simp
        show ?thesis
        proof (cases found)
          case None
          then show ?thesis using ok1 tk pass v fb by (simp add: requireSignIn_def)
        next
          case (Some user)
          note u = Some
          show ?thesis
          proof (cases "tk_tokenVersion decoded \<noteq> None
                         \<and> \<not> isTokenVersionValid user (the (tk_tokenVersion decoded))")
            case True
            show ?thesis
            proof (cases "blacklistToken token (u_id user) (tk_exp decoded * 1000)
                                ''password_change'' no_metadata now (blacklist d1)")
              case (Inl e)
              then show ?thesis using ok1 tk pass v fb u True by (simp add: requireSignIn_def)
            next
              case (Inr bl)
              from blacklistToken_ok [OF Inr _ verify_covers [OF v]] ok1
              have "ledger_ok (d1\<lparr>blacklist := bl\<rparr>)" by (simp add: ledger_ok_def)
              then show ?thesis using tk pass v fb u True Inr by (simp add: requireSignIn_def)
            qed
          next
            case False
            note ver = False
            show ?thesis
            proof (cases "Session_findOne token (u_id user) (sessions d1)")
              case None
              then show ?thesis using ok1 tk pass v fb u ver
                by (auto simp add: requireSignIn_def)
            next
              case (Some sess)
              have os: "session_covered sess" using Session_findOne_ok [OF Some] ok1 by (simp add: ledger_ok_def)
              obtain e d2 where inv:
                "Session_invalidate sess ''inactivity_timeout'' now d1 = (e, d2)"
                by (cases "Session_invalidate sess ''inactivity_timeout'' now d1")
              have ok2: "ledger_ok d2"
                using Session_invalidate_ok [OF ok1 os, of "''inactivity_timeout''" now] inv
                by simp
              have ok3: "ledger_ok (d1\<lparr>sessions := Session_save (sess\<lparr>s_lastActivity := now\<rparr>) (sessions d1)\<rparr>)"
                using ok1 os Session_save_ok [of "sessions d1" "sess\<lparr>s_lastActivity := now\<rparr>"]
                by (simp add: ledger_ok_def)
              show ?thesis using tk pass v fb u ver Some inv ok1 ok2 ok3 os
                by (auto simp add: requireSignIn_def updateActivity_def Let_def
                    split: option.splits)
            qed
          qed
        qed
      qed
    qed
  qed
  then show "ledger_ok (snd (requireSignIn cfg now req d))"
    and "fst (requireSignIn cfg now req d) = Inr ctx \<Longrightarrow> req_session ctx = Some s \<Longrightarrow> session_covered s"
    by blast+
qed

lemma versions_grow_refl: "versions_grow us us"
  by (simp add: versions_grow_def)

lemma versions_grow_trans:
  "versions_grow a b \<Longrightarrow> versions_grow b c \<Longrightarrow> versions_grow a c"
  unfolding versions_grow_def by (meson order_trans)

lemma versions_grow_update:
  assumes "\<And>u. u_id (f u) = u_id u" and "\<And>u. u_tokenVersion u \<le> u_tokenVersion (f u)"
  shows "versions_grow us (User_update c f us)"
  unfolding versions_grow_def using assms by (auto simp: find_User_update)

lemma find_append_Some: "find P xs = Some x \<Longrightarrow> find P (xs @ ys) = Some x"
  by (induction xs) (auto split: if_splits)

lemma versions_grow_append: "versions_grow us (us @ [u])"
  unfolding versions_grow_def by (auto simp: find_append_Some)

lemma pre_findOne_grow: "versions_grow (users d) (users (pre_findOne c now d))"
  by (auto simp: pre_findOne_def Let_def intro!: versions_grow_refl versions_grow_update
      versions_grow_trans [OF versions_grow_update versions_grow_update])

lemma incLoginAttempts_grow: "versions_grow us (incLoginAttempts u now us)"
  by (auto simp: incLoginAttempts_def intro!: versions_grow_update)

lemma resetLoginAttempts_grow: "versions_grow us (resetLoginAttempts u now us)"
  by (auto simp: resetLoginAttempts_def intro!: versions_grow_update)

lemma save_password_grow:
  assumes "find (\<lambda>x. u_id x = i) us = Some this" 
    and "User_save_password this pw now us = Inr (doc, us')"
  shows "versions_grow us us'"
proof -
  have id: "u_id this = i" using assms(1) by (rule find_id)
  show ?thesis
    unfolding versions_grow_def
  proof (intro allI impI)
    fix j u assume f: "find (\<lambda>x. u_id x = j) us = Some u"
    show "\<exists>u'. find (\<lambda>x. u_id x = j) us' = Some u' \<and> u_tokenVersion u \<le> u_tokenVersion u'"
    proof (cases "j = i")
      case True
      with f assms(1) have "u = this" by simp
      then show ?thesis using f True id User_save_password_Inr [OF assms(2)]
        by (simp add: find_User_update)
    next
      case False
      have "u_id u = j" using f by (rule find_id)
      then show ?thesis using f False id User_save_password_Inr [OF assms(2)]
        by (simp add: find_User_update)
    qed
  qed
qed


lemma requireSignIn_grow:
  "versions_grow (users d) (users (snd (requireSignIn cfg now req d)))"
proof (cases "extractToken req")
  case None
  then show ?thesis by (simp add: requireSignIn_def versions_grow_refl)
next
  case (Some token)
  show ?thesis
  proof (cases "tok_truthy token \<and> \<not> isBlacklisted token now (blacklist d)")
    case False
    then show ?thesis using Some by (auto simp add: requireSignIn_def versions_grow_refl)
  next
    case True
    show ?thesis
    proof (cases "verifyToken cfg token (Some ''access'') now")
      case (Inl e)
      then show ?thesis using Some True by (simp add: requireSignIn_def versions_grow_refl)
    next
      case (Inr decoded)
      from requireSignIn_users [OF Some _ _ Inr] True show ?thesis
        by (simp add: pre_findOne_grow)
    qed
  qed
qed

lemma signup_ok: "ledger_ok d \<Longrightarrow> ledger_ok (snd (signup cfg now r req d))"
  by (auto simp: signup_def Let_def ledger_ok_def split: sum.splits prod.splits
      dest: issueTokens_ok)

lemma signup_grow: "versions_grow (users d) (users (snd (signup cfg now r req d)))"
  by (auto simp: signup_def Let_def split: sum.splits prod.splits
      dest!: User_create_Inr intro: versions_grow_refl versions_grow_append)

lemma login_ok: "ledger_ok d \<Longrightarrow> ledger_ok (snd (login cfg now r req d))"
  by (auto simp: login_def User_findOne_email_def pre_findOne_None Let_def ledger_ok_def
      split: sum.splits prod.splits option.splits dest: issueTokens_ok)

lemma login_grow: "versions_grow (users d) (users (snd (login cfg now r req d)))"
  by (auto simp: login_def User_findOne_email_def pre_findOne_None Let_def
      split: sum.splits prod.splits option.splits
      intro: versions_grow_refl incLoginAttempts_grow resetLoginAttempts_grow)

lemma refreshToken_state:
  "snd (refreshToken cfg now r req d) = d
   \<or> (\<exists>i. snd (refreshToken cfg now r req d) = pre_findOne (Some i) now d)"
  by (auto simp: refreshToken_def User_findById_def Let_def rotation_never
      split: option.splits sum.splits)

lemma refreshToken_ok: "ledger_ok d \<Longrightarrow> ledger_ok (snd (refreshToken cfg now r req d))"
  using refreshToken_state [of cfg now r req d] by (auto simp: pre_findOne_ok)

lemma refreshToken_grow: "versions_grow (users d) (users (snd (refreshToken cfg now r req d)))"
  using refreshToken_state [of cfg now r req d]
  by (auto simp: versions_grow_refl pre_findOne_grow)

lemma logout_ok:
  assumes "ledger_ok d" and "\<And>s. req_session ctx = Some s \<Longrightarrow> session_covered s"
  shows "ledger_ok (snd (logout cfg now req ctx d))"
proof (cases "tok_truthy (req_token ctx)")
  case False
  then show ?thesis using assms(1) by (simp add: logout_def)
next
  case True
  show ?thesis
  proof (cases "verifyToken cfg (req_token ctx) None now")
    case (Inl e)
    then show ?thesis using assms(1) True by (simp add: logout_def)
  next
    case (Inr decoded)
    note v = Inr
    show ?thesis
    proof (cases "blacklistToken (req_token ctx) (u_id (req_user ctx)) (tk_exp decoded * 1000)
                     ''logout'' (getClientMetadata req) now (blacklist d)")
      case (Inl e)
      then show ?thesis using assms(1) True v by (simp add: logout_def)
    next
      case (Inr bl)
      from blacklistToken_ok [OF Inr _ verify_covers [OF v]] assms(1)
      have ok1: "ledger_ok (d\<lparr>blacklist := bl\<rparr>)" by (simp add: ledger_ok_def)
      show ?thesis
      proof (cases "req_session ctx")
        case None
        then show ?thesis using ok1 True v Inr by (simp add: logout_def)
      next
        case (Some s)
        from Session_invalidate_ok [OF ok1 assms(2) [OF Some], of "''logout''" now]
        show ?thesis using True v Inr Some
          by (auto simp add: logout_def split: prod.splits option.splits)
      qed
    qed
  qed
qed

lemma logout_users: "users (snd (logout cfg now req ctx d)) = users d"
proof (cases "verifyToken cfg (req_token ctx) None now")
  case (Inl e)
  then show ?thesis by (simp add: logout_def Let_def)
next
  case (Inr decoded)
  note v = Inr
  show ?thesis
  proof (cases "blacklistToken (req_token ctx) (u_id (req_user ctx)) (tk_exp decoded * 1000)
                   ''logout'' (getClientMetadata req) now (blacklist d)")
    case (Inl e)
    then show ?thesis using v by (simp add: logout_def Let_def)
  next
    case (Inr bl)
    show ?thesis
    proof (cases "req_session ctx")
      case None
      then show ?thesis using v Inr by (simp add: logout_def Let_def)
    next
      case (Some s)
      obtain e d2 where inv: "Session_invalidate s ''logout'' now (d\<lparr>blacklist := bl\<rparr>) = (e, d2)"
        by (cases "Session_invalidate s ''logout'' now (d\<lparr>blacklist := bl\<rparr>)")
      then have "users d2 = users d"
        using Session_invalidate_users [of s "''logout''" now "d\<lparr>blacklist := bl\<rparr>"] by simp
      then show ?thesis using v Inr Some inv
        by (simp add: logout_def Let_def split: option.splits)
    qed
  qed
qed

lemma route_logout_ok: "ledger_ok d \<Longrightarrow> ledger_ok (snd (route_logout cfg now req d))"
proof -
  assume ok: "ledger_ok d"
  obtain res d1 where rs: "requireSignIn cfg now req d = (res, d1)"
    by (cases "requireSignIn cfg now req d")
  have ok1: "ledger_ok d1" using requireSignIn_ok(1) [OF ok, of cfg now req] rs by simp
  show ?thesis
  proof (cases res)
    case (Inl reply)
    then show ?thesis using rs ok1 by (simp add: route_logout_def)
  next
    case (Inr ctx)
    have "\<And>s. req_session ctx = Some s \<Longrightarrow> session_covered s"
      using requireSignIn_ok(2) [OF ok, of cfg now req ctx] rs Inr by simp
    from logout_ok [OF ok1 this] show ?thesis using rs Inr by (simp add: route_logout_def)
  qed
qed

lemma route_logout_grow:
  "versions_grow (users d) (users (snd (route_logout cfg now req d)))"
proof -
  obtain res d1 where rs: "requireSignIn cfg now req d = (res, d1)"
    by (cases "requireSignIn cfg now req d")
  have g: "versions_grow (users d) (users d1)"
    using requireSignIn_grow [of d cfg now req] rs by simp
  show ?thesis using rs g by (cases res) (simp_all add: route_logout_def logout_users)
qed


lemma changePassword_state:
  assumes fb: "User_findById (u_id (req_user ctx)) now d = (found, d1)"
  shows "snd (changePassword now req ctx d) = d \<or> snd (changePassword now req ctx d) = d1
        \<or> (\<exists>user doc us res. found = Some user
              \<and> User_save_password user (the (body_newPassword req)) now (users d1) = Inr (doc, us)
              \<and> invalidateAllUserSessions (u_id doc) ''password_change'' now (d1\<lparr>users := us\<rparr>)
                   = (res, snd (changePassword now req ctx d)))"
  using fb
  by (auto simp: changePassword_def split: option.splits sum.splits prod.splits)

lemma changePassword_keeps_ok:
  assumes "ledger_ok d"
  shows "ledger_ok (snd (changePassword now req ctx d))"
proof -
  obtain found d1 where fb: "User_findById (u_id (req_user ctx)) now d = (found, d1)"
    by (cases "User_findById (u_id (req_user ctx)) now d")
  have ok1: "ledger_ok d1" using User_findById_ok [OF fb] assms by simp
  from changePassword_state [OF fb, of req]
  consider "snd (changePassword now req ctx d) = d" | "snd (changePassword now req ctx d) = d1"
    | user doc us res where "found = Some user"
      "User_save_password user (the (body_newPassword req)) now (users d1) = Inr (doc, us)"
      "invalidateAllUserSessions (u_id doc) ''password_change'' now (d1\<lparr>users := us\<rparr>)
                   = (res, snd (changePassword now req ctx d))"
    by blast
  then show ?thesis
  proof cases
    case 1
    then show ?thesis using assms by simp
  next
    case 2
    then show ?thesis using ok1 by simp
  next
    case 3
    have "ledger_ok (d1\<lparr>users := us\<rparr>)" using ok1 by (simp add: ledger_ok_def)
    from invalidateAll_ok [OF this, of "u_id doc" "''password_change''" now] 3(3)
    show ?thesis by simp
  qed
qed

lemma changePassword_grow:
  "versions_grow (users d) (users (snd (changePassword now req ctx d)))"
proof -
  obtain found d1 where fb: "User_findById (u_id (req_user ctx)) now d = (found, d1)"
    by (cases "User_findById (u_id (req_user ctx)) now d")
  have d1: "d1 = pre_findOne (Some (u_id (req_user ctx))) now d"
    and fd: "found = find (\<lambda>u. u_id u = u_id (req_user ctx)) (users d1)"
    using fb by (auto simp: User_findById_def Let_def)
  have g1: "versions_grow (users d) (users d1)" by (simp add: d1 pre_findOne_grow)
  from changePassword_state [OF fb, of req]
  consider "snd (changePassword now req ctx d) = d" | "snd (changePassword now req ctx d) = d1"
    | user doc us res where "found = Some user"
      "User_save_password user (the (body_newPassword req)) now (users d1) = Inr (doc, us)"
      "invalidateAllUserSessions (u_id doc) ''password_change'' now (d1\<lparr>users := us\<rparr>)
                   = (res, snd (changePassword now req ctx d))"
    by blast
  then show ?thesis
  proof cases
    case 1
    then show ?thesis by (simp add: versions_grow_refl)
  next
    case 2
    then show ?thesis using g1 by simp
  next
    case 3
    have "find (\<lambda>u. u_id u = u_id (req_user ctx)) (users d1) = Some user"
      using 3(1) fd by simp
    from save_password_grow [OF this 3(2)] have "versions_grow (users d1) us" .
    moreover have "users (snd (changePassword now req ctx d)) = us"
      using invalidateAll_users [OF 3(3)] by simp
    ultimately show ?thesis using g1 versions_grow_trans by metis
  qed
qed

lemma route_changePassword_ok:
  "ledger_ok d \<Longrightarrow> ledger_ok (snd (route_changePassword cfg now req d))"
proof -
  assume ok: "ledger_ok d"
  obtain res d1 where rs: "requireSignIn cfg now req d = (res, d1)"
    by (cases "requireSignIn cfg now req d")
  have ok1: "ledger_ok d1" using requireSignIn_ok(1) [OF ok, of cfg now req] rs by simp
  show ?thesis using rs ok1 changePassword_keeps_ok
    by (cases res) (simp_all add: route_changePassword_def)
qed

lemma route_changePassword_grow:
  "versions_grow (users d) (users (snd (route_changePassword cfg now req d)))"
proof -
  obtain res d1 where rs: "requireSignIn cfg now req d = (res, d1)"
    by (cases "requireSignIn cfg now req d")
  have g: "versions_grow (users d) (users d1)"
    using requireSignIn_grow [of d cfg now req] rs by simp
  show ?thesis using rs g changePassword_grow [of d1] versions_grow_trans
    by (cases res) (auto simp add: route_changePassword_def)
qed

lemma adminLogin_ok: "ledger_ok d \<Longrightarrow> ledger_ok (snd (adminLogin cfg now r req d))"
  by (auto simp: adminLogin_def User_findOne_email_def pre_findOne_None Let_def ledger_ok_def
      split: sum.splits prod.splits option.splits dest: issueTokens_ok)

lemma adminLogin_grow: "versions_grow (users d) (users (snd (adminLogin cfg now r req d)))"
  by (auto simp: adminLogin_def User_findOne_email_def pre_findOne_None Let_def
      split: sum.splits prod.splits option.splits
      intro: versions_grow_refl incLoginAttempts_grow resetLoginAttempts_grow)

lemma optionalAuth_state:
  "snd (optionalAuth cfg now req d) = d
   \<or> (\<exists>i. snd (optionalAuth cfg now req d) = pre_findOne (Some i) now d)
   \<or> (\<exists>i j s. find (\<lambda>x. s_token x = the (extractToken req) \<and> s_userId x = j \<and> s_isActive x)
                  (sessions d) = Some s
            \<and> snd (optionalAuth cfg now req d)
                = (pre_findOne (Some i) now d)
                    \<lparr>sessions := Session_save (s\<lparr>s_lastActivity := now\<rparr>) (sessions d)\<rparr>)"
  by (auto simp: optionalAuth_def User_findById_def updateActivity_def Session_findOne_def
      pre_findOne_frame Let_def split: option.splits sum.splits)

lemma optionalAuth_ok:
  assumes "ledger_ok d"
  shows "ledger_ok (snd (optionalAuth cfg now req d))"
proof -
  have "list_all session_covered (Session_save (s\<lparr>s_lastActivity := now\<rparr>) (sessions d))"
    if "find P (sessions d) = Some s" for P s
  proof -
    have "s \<in> set (sessions d)" using that by (auto simp: find_Some_iff)
    then have "session_covered s" using assms by (simp add: ledger_ok_def list_all_iff)
    then show ?thesis using assms by (intro Session_save_ok) (simp_all add: ledger_ok_def)
  qed
  then show ?thesis
    using optionalAuth_state [of cfg now req d] assms
    by (auto simp: pre_findOne_ok) (simp add: ledger_ok_def pre_findOne_frame)
qed

lemma optionalAuth_grow:
  "versions_grow (users d) (users (snd (optionalAuth cfg now req d)))"
  using optionalAuth_state [of cfg now req d]
  by (auto simp: versions_grow_refl pre_findOne_grow)

lemma logoutAll_ok: "ledger_ok d \<Longrightarrow> ledger_ok (snd (logoutAll now ctx d))"
  using invalidateAll_ok [of d "u_id (req_user ctx)" "''logout_all''" now]
  by (auto simp: logoutAll_def split: prod.splits sum.splits)

lemma logoutAll_users: "users (snd (logoutAll now ctx d)) = users d"
  by (auto simp: logoutAll_def split: prod.splits sum.splits dest: invalidateAll_users)

lemma route_logoutAll_ok:
  "ledger_ok d \<Longrightarrow> ledger_ok (snd (route_logoutAll cfg now req d))"
proof -
  assume ok: "ledger_ok d"
  obtain res d1 where rs: "requireSignIn cfg now req d = (res, d1)"
    by (cases "requireSignIn cfg now req d")
  have ok1: "ledger_ok d1" using requireSignIn_ok(1) [OF ok, of cfg now req] rs by simp
  show ?thesis using rs ok1 logoutAll_ok
    by (cases res) (simp_all add: route_logoutAll_def)
qed

lemma route_logoutAll_grow:
  "versions_grow (users d) (users (snd (route_logoutAll cfg now req d)))"
proof -
  obtain res d1 where rs: "requireSignIn cfg now req d = (res, d1)"
    by (cases "requireSignIn cfg now req d")
  have g: "versions_grow (users d) (users d1)"
    using requireSignIn_grow [of d cfg now req] rs by simp
  show ?thesis using rs g by (cases res) (simp_all add: route_logoutAll_def logoutAll_users)
qed

lemma step_ok: "ledger_ok d \<Longrightarrow> ledger_ok (step cfg ev d)"
proof (cases ev)
  case (CleanupLedger now)
  assume "ledger_ok d"
  then show ?thesis using CleanupLedger
    by (simp add: ledger_ok_def cleanupExpired_def list_all_iff)
next
  case (CleanupSessions hours now)
  assume "ledger_ok d"
  then show ?thesis using CleanupSessions
    by (simp add: ledger_ok_def cleanupInactiveSessions_def Let_def list_all_iff)
qed (simp_all add: signup_ok login_ok adminLogin_ok refreshToken_ok requireSignIn_ok(1)
        optionalAuth_ok route_logout_ok route_logoutAll_ok route_changePassword_ok)

lemma step_grow: "versions_grow (users d) (users (step cfg ev d))"
  by (cases ev)
     (simp_all add: signup_grow login_grow adminLogin_grow refreshToken_grow
        requireSignIn_grow optionalAuth_grow route_logout_grow route_logoutAll_grow
        route_changePassword_grow versions_grow_refl)

lemma run_ok: "ledger_ok d \<Longrightarrow> ledger_ok (run cfg evs d)"
  unfolding run_def by (induction evs arbitrary: d) (simp_all add: step_ok)

lemma run_grow: "versions_grow (users d) (users (run cfg evs d))"
  unfolding run_def
proof (induction evs arbitrary: d)
  case Nil
  then show ?case by (simp add: versions_grow_refl)
next
  case (Cons ev evs)
  from versions_grow_trans [OF step_grow Cons.IH] show ?case by simp
qed

lemma not_listed_not_dup:
  assumes "\<not> isBlacklisted token now bl"
    and "\<forall>e\<in>set bl. b_token e = token \<longrightarrow> now < b_expiresAt e"
  shows "\<not> list_ex (\<lambda>e. b_token e = token) bl"
  using assms by (auto simp: isBlacklisted_def list_ex_iff)

text \<open>
  A correctly signed, unexpired access token whose version is not the credential's
  is refused: as revoked when the ledger holds it, as stale (and then entered in the
  ledger) otherwise.
\<close>

lemma stale_token_refused:
  assumes tok: "extractToken req = Some (Signed p k)" "JWT_SECRET cfg = Some k" "k \<noteq> []"
      "tk_type p = ''access''" "tk_tokenVersion p = Some v" "now div 1000 < tk_exp p"
    and usr: "find (\<lambda>u. u_id u = tk_id p) (users d) = Some user" "u_tokenVersion user \<noteq> v"
    and ledger: "\<forall>e\<in>set (blacklist d).
                   b_token e = Signed p k \<longrightarrow> tk_exp p * 1000 \<le> b_expiresAt e"
  shows "fst (requireSignIn cfg now req d)
           \<in> {Inl (ApiError msg_invalidated 401), Inl (ApiError msg_passwordChanged 401)}"
proof (cases "isBlacklisted (Signed p k) now (blacklist d)")
  case True
  then show ?thesis using tok by (simp add: requireSignIn_def tok_truthy_def)
next
  case False
  have v: "verifyToken cfg (Signed p k) (Some ''access'') now = Inr p"
    using tok by (simp add: verifyToken_def jwt_verify_def truthy_def)
  from pre_findOne_find [OF usr(1)] obtain u' where
    u': "find (\<lambda>u. u_id u = tk_id p) (users (pre_findOne (Some (tk_id p)) now d)) = Some u'"
      "u_tokenVersion u' = u_tokenVersion user" by blast
  have fb: "User_findById (tk_id p) now d = (Some u', pre_findOne (Some (tk_id p)) now d)"
    using u' by (simp add: User_findById_def Let_def)
  have "now < tk_exp p * 1000" using tok(6) by linarith
  then have "\<forall>e\<in>set (blacklist d). b_token e = Signed p k \<longrightarrow> now < b_expiresAt e"
    using ledger by fastforce
  from not_listed_not_dup [OF False this]
  have nodup: "\<not> list_ex (\<lambda>e. b_token e = Signed p k)
                   (blacklist (pre_findOne (Some (tk_id p)) now d))"
    by (simp add: pre_findOne_frame)
  have "\<exists>bl. blacklistToken (Signed p k) (u_id u') (tk_exp p * 1000) ''password_change''
           no_metadata now (blacklist (pre_findOne (Some (tk_id p)) now d)) = Inr bl"
    using nodup
    by (simp add: blacklistToken_def TokenBlacklist_validate_def reasonEnum_def
        tok_truthy_def Let_def)
  then show ?thesis using tok False v fb u' usr(2)
    by (auto simp add: requireSignIn_def tok_truthy_def isTokenVersionValid_def)
qed

text \<open>
  Claim C3: a successful changePassword increments the token version of the
  credential, and an access token issued before the change (for this user, carrying a
  version not above the one before the change), correctly signed and not expired, is
  refused by \<^verbatim>\<open>requireSignIn\<close> with ``Your session has been invalidated'' or ``Your
  password was changed'': in the state the change leaves, and after any sequence
  \<open>evs\<close> of further signups, logins, refreshes, authenticated requests, logouts,
  password changes and removals of expired entries and sessions. The stores before the change
  satisfy \<open>ledger_ok\<close>, which every request preserves.
\<close>

theorem changePassword_invalidates_tokens:
  assumes cp: "changePassword now req ctx d = (Json 200 b, d')"
    and before: "User_findById (u_id (req_user ctx)) now d = (Some user, d1)"
    and ok: "ledger_ok d"
    and tok: "extractToken req' = Some (Signed p k)" "JWT_SECRET cfg = Some k" "k \<noteq> []"
      "tk_type p = ''access''" "tk_id p = u_id user" "tk_tokenVersion p = Some v"
      "v \<le> u_tokenVersion user"
    and alive: "now' div 1000 < tk_exp p"
  shows "(\<exists>user'. find (\<lambda>u. u_id u = u_id user) (users d') = Some user'
            \<and> u_tokenVersion user' = u_tokenVersion user + 1)
         \<and> fst (requireSignIn cfg now' req' (run cfg evs d'))
             \<in> {Inl (ApiError msg_invalidated 401), Inl (ApiError msg_passwordChanged 401)}"
proof -
  have f1: "find (\<lambda>u. u_id u = u_id (req_user ctx)) (users d1) = Some user"
    using before by (auto simp add: User_findById_def Let_def)
  then have id: "u_id user = u_id (req_user ctx)" by (rule find_id)
  have new: "find (\<lambda>u. u_id u = u_id user) (users d')
          = Some (user\<lparr>u_password := Bcrypt (the (body_newPassword req)),
                   u_passwordChangedAt := Some now, u_lastPasswordChange := Some now,
                   u_tokenVersion := u_tokenVersion user + 1\<rparr>)"
    using f1 id by (simp add: changePassword_ok [OF cp before] find_User_update)
  then have a: "\<exists>user'. find (\<lambda>u. u_id u = u_id user) (users d') = Some user'
            \<and> u_tokenVersion user' = u_tokenVersion user + 1" by simp
  have "versions_grow (users d') (users (run cfg evs d'))" by (rule run_grow)
  with new obtain user'' where
    later: "find (\<lambda>u. u_id u = u_id user) (users (run cfg evs d')) = Some user''"
      "u_tokenVersion user + 1 \<le> u_tokenVersion user''"
    unfolding versions_grow_def by fastforce
  have "ledger_ok d'" using changePassword_keeps_ok [OF ok, of now req ctx] cp by simp
  then have "ledger_ok (run cfg evs d')" by (rule run_ok)
  then have ledger: "\<forall>e\<in>set (blacklist (run cfg evs d')).
                   b_token e = Signed p k \<longrightarrow> tk_exp p * 1000 \<le> b_expiresAt e"
    by (auto simp: ledger_ok_def list_all_iff expiry_covers_def)
  have "u_tokenVersion user'' \<noteq> v" using tok(7) later(2) by linarith
  from stale_token_refused [OF tok(1,2,3,4,6) alive _ this ledger] later(1) tok(5)
  have b: "fst (requireSignIn cfg now' req' (run cfg evs d'))
             \<in> {Inl (ApiError msg_invalidated 401), Inl (ApiError msg_passwordChanged 401)}"
    by simp
  from a b show ?thesis by blast
qed

theorem changePassword_invalidates_tokens_witness:
  "changePassword 3000000 ex_change_req ex_ctx ex_db
     = (Json 200 (MessageBody msg_passwordChangedOk), ex_changed)
   \<and> map u_tokenVersion (users ex_db) = [0]
   \<and> map u_tokenVersion (users ex_changed) = [1]
   \<and> fst (requireSignIn ex_cfg 4000000 (ex_req\<lparr>cookie_accessToken := Some ex_access\<rparr>)
             (run ex_cfg [CleanupLedger 3100000, Login 3200000 ex_rnd ex_wrong] ex_changed))
       \<in> {Inl (ApiError msg_invalidated 401), Inl (ApiError msg_passwordChanged 401)}"
proof -
  let ?p = "\<lparr>tk_id = 1, tk_type = ''access'', tk_tokenVersion = Some 0, tk_jti = ''a1'',
             tk_iat = 1000, tk_exp = 8200, tk_ipAddress = Some ''10.0.0.1'',
             tk_userAgent = Some ''Unknown''\<rparr>"
  have cp: "changePassword 3000000 ex_change_req ex_ctx ex_db
              = (Json 200 (MessageBody msg_passwordChangedOk), ex_changed)"
    by code_simp
  have before: "User_findById (u_id (req_user ex_ctx)) 3000000 ex_db = (Some ex_user, ex_db)"
    by code_simp
  have ok: "ledger_ok ex_db"
    by (simp add: ledger_ok_def ex_db_def ex_session_def ex_access_def expiry_covers_def)
  have t1: "extractToken (ex_req\<lparr>cookie_accessToken := Some ex_access\<rparr>)
              = Some (Signed ?p ''s3cret'')"
    by (simp add: extractToken_def ex_req_def ex_access_def tok_truthy_def)
  have t2: "JWT_SECRET ex_cfg = Some ''s3cret''" by (simp add: ex_cfg_def)
  have t3: "''s3cret'' \<noteq> []" by simp
  have t4: "tk_type ?p = ''access''" by simp
  have t5: "tk_id ?p = u_id ex_user" by (simp add: ex_user_def)
  have t6: "tk_tokenVersion ?p = Some 0" by simp
  have t7: "(0::int) \<le> u_tokenVersion ex_user" by (simp add: ex_user_def)
  have alive: "(4000000::int) div 1000 < tk_exp ?p" by simp
  have v: "map u_tokenVersion (users ex_db) = [0] \<and> map u_tokenVersion (users ex_changed) = [1]"
    by (simp add: ex_db_def ex_changed_def ex_user_def)
  show ?thesis
    using changePassword_invalidates_tokens
      [OF cp before ok t1 t2 t3 t4 t5 t6 t7 alive,
        where evs = "[CleanupLedger 3100000, Login 3200000 ex_rnd ex_wrong]"] cp v
    by simp
qed

section \<open>Lockout\<close>

text \<open>One failed login of an unlocked, unblocked credential.\<close>

lemma login_wrong_password:
  assumes "body_email req = Some e" and "find (\<lambda>u. u_email u = trim e) (users d) = Some u"
    and "u_lockUntil u = None" and "\<not> u_isBlocked u"
    and "body_password req = Some w" and "u_password u = Bcrypt pw" and "w \<noteq> pw"
  shows "fst (login cfg now r req d) = ApiError msg_badCredentials 401"
    and "find (\<lambda>u. u_email u = trim e) (users (snd (login cfg now r req d)))
           = Some (u\<lparr>u_loginAttempts := u_loginAttempts u + 1,
                      u_lockUntil := (if u_loginAttempts u + 1 \<ge> 5
                                      then Some (now + 2 * 60 * 60 * 1000) else None)\<rparr>)"
    and "sessions (snd (login cfg now r req d)) = sessions d"
proof -
  have lg: "login cfg now r req d
              = (ApiError msg_badCredentials 401,
                 d\<lparr>users := incLoginAttempts u now (users d)\<rparr>)"
    using assms
    by (simp add: login_def User_findOne_email_def pre_findOne_None isLocked_def
        comparePassword_def)
  show "fst (login cfg now r req d) = ApiError msg_badCredentials 401"
    by (simp add: lg)
  show "sessions (snd (login cfg now r req d)) = sessions d"
    by (simp add: lg)
  show "find (\<lambda>u. u_email u = trim e) (users (snd (login cfg now r req d)))
           = Some (u\<lparr>u_loginAttempts := u_loginAttempts u + 1,
                      u_lockUntil := (if u_loginAttempts u + 1 \<ge> 5
                                      then Some (now + 2 * 60 * 60 * 1000) else None)\<rparr>)"
    using assms(3)
    by (simp add: lg incLoginAttempts_def isLocked_def find_email_update [OF assms(2)])
qed

lemma login_locked:
  assumes "body_email req = Some e" and "find (\<lambda>u. u_email u = trim e) (users d) = Some u"
    and "u_lockUntil u = Some t" and "now < t"
  shows "login cfg now r req d = (ApiError (msg_loginLocked (lockTimeRemaining u now)) 403, d)"
  using assms
  by (simp add: login_def User_findOne_email_def pre_findOne_None isLocked_def)

text \<open>
  A login with the right password of a credential that is neither locked nor blocked
  resets the counter before the tokens are made, so also when they cannot be made.
\<close>

lemma login_correct:
  assumes "body_email req = Some e" and "find (\<lambda>u. u_email u = trim e) (users d) = Some u"
    and "\<not> isLocked u now" and "\<not> u_isBlocked u"
    and "body_password req = Some pw" and "u_password u = Bcrypt pw"
  shows "users (snd (login cfg now r req d)) = resetLoginAttempts u now (users d)"
    and "issueTokens cfg now r u (getClientMetadata req) (sessions d) = Inr (a, rt, ss) \<Longrightarrow>
         login cfg now r req d
           = (Json 200 (AuthBody a rt (delete_key ''password'' (toObject u))),
              d\<lparr>users := resetLoginAttempts u now (users d), sessions := ss\<rparr>)"
  using assms
  by (auto simp add: login_def User_findOne_email_def pre_findOne_None comparePassword_def
      Let_def split: sum.splits prod.splits)

text \<open>A login of a blocked credential is refused before its password is looked at.\<close>

lemma login_blocked:
  assumes "body_email req = Some e" and "find (\<lambda>u. u_email u = trim e) (users d) = Some u"
    and "\<not> isLocked u now" and "u_isBlocked u"
  shows "login cfg now r req d = (ApiError msg_accountDisabled 403, d)"
  using assms by (simp add: login_def User_findOne_email_def pre_findOne_None)

text \<open>
  Claim C4 says that from an unlocked credential with no failed attempt five logins
  with a wrong password set the lock, and so on. That needs the credential not to be
  blocked: the login of a blocked credential is refused 403 ``Your Account has been
  disabled'' before the password is compared, and no attempt is counted. Below, five
  such logins of a blocked credential leave the stores as they were, with no failed
  attempt and no lock.
\<close>

theorem lockout_blocked_counterexample:
  "map u_loginAttempts (users ex_blocked) = [0] \<and> map u_lockUntil (users ex_blocked) = [None]
   \<and> map (\<lambda>u. Some (u_email u)) (users ex_blocked) = [body_email ex_wrong]
   \<and> map (\<lambda>u. comparePassword u (the (body_password ex_wrong))) (users ex_blocked) = [False]
   \<and> login ex_cfg 2000001 ex_rnd ex_wrong ex_blocked
       = (ApiError msg_accountDisabled 403, ex_blocked)
   \<and> run ex_cfg [Login 2000001 ex_rnd ex_wrong, Login 2000002 ex_rnd ex_wrong,
                  Login 2000003 ex_rnd ex_wrong, Login 2000004 ex_rnd ex_wrong,
                  Login 2000005 ex_rnd ex_wrong] ex_blocked
       = ex_blocked"
  by code_simp

text \<open>
  Claim C4 as amended, for a credential that is neither locked nor blocked and has
  no failed attempt, and for logins that submit its email (white space around it
  ignored). Five logins in a row with a wrong password are each answered 401 and
  leave five failed attempts and a lock until two hours after the fifth, the sessions
  untouched. While the lock lasts a login is refused 403 ``Account temporarily
  locked'' whatever its password, and changes nothing. Once the lock has passed, a
  login with the right password leaves no failed attempt and no lock; and it is
  answered 200 with a token pair and the credential, a session being stored, when the
  token settings are in place and the token identifier drawn is a new one.
\<close>

theorem lockout_cycle:
  assumes u0: "find (\<lambda>u. u_email u = em) (users d0) = Some u0"
    and fresh: "u_loginAttempts u0 = 0" "u_lockUntil u0 = None" "\<not> u_isBlocked u0"
    and pw: "u_password u0 = Bcrypt pw"
    and wrong: "\<forall>q \<in> {q1, q2, q3, q4, q5}.
                  (\<exists>e. body_email q = Some e \<and> trim e = em)
                  \<and> (\<exists>w. body_password q = Some w \<and> w \<noteq> pw)"
    and steps: "d1 = snd (login cfg t1 r1 q1 d0)" "d2 = snd (login cfg t2 r2 q2 d1)"
      "d3 = snd (login cfg t3 r3 q3 d2)" "d4 = snd (login cfg t4 r4 q4 d3)"
      "d5 = snd (login cfg t5 r5 q5 d4)"
    and locked: "u5 = u0\<lparr>u_loginAttempts := 5, u_lockUntil := Some (t5 + 2 * 60 * 60 * 1000)\<rparr>"
  shows "map fst [login cfg t1 r1 q1 d0, login cfg t2 r2 q2 d1, login cfg t3 r3 q3 d2,
                  login cfg t4 r4 q4 d3, login cfg t5 r5 q5 d4]
           = replicate 5 (ApiError msg_badCredentials 401)
     \<and> find (\<lambda>u. u_email u = em) (users d5) = Some u5
     \<and> sessions d5 = sessions d0
     \<and> (\<forall>t6 r6 q6 e. body_email q6 = Some e \<and> trim e = em \<and> t6 < t5 + 2 * 60 * 60 * 1000 \<longrightarrow>
           login cfg t6 r6 q6 d5
             = (ApiError (msg_loginLocked (lockTimeRemaining u5 t6)) 403, d5))
     \<and> (\<forall>t7 r7 q7 e.
           body_email q7 = Some e \<and> trim e = em \<and> body_password q7 = Some pw
           \<and> t5 + 2 * 60 * 60 * 1000 \<le> t7
           \<longrightarrow>
           find (\<lambda>u. u_email u = em) (users (snd (login cfg t7 r7 q7 d5)))
               = Some (u0\<lparr>u_loginAttempts := 0, u_lastLogin := Some t7, u_lockUntil := None\<rparr>)
           \<and> (tokenSettings cfg \<and> freshJti r7 (sessions d5) \<longrightarrow>
                (\<exists>a rt ss.
                   login cfg t7 r7 q7 d5
                     = (Json 200 (AuthBody a rt (delete_key ''password'' (toObject u5))),
                        d5\<lparr>users := resetLoginAttempts u5 t7 (users d5), sessions := ss\<rparr>)
                   \<and> list_ex (\<lambda>s. s_token s = a \<and> s_userId s = u_id u0) ss)))"
proof -
  from wrong obtain e1 e2 e3 e4 e5 w1 w2 w3 w4 w5 where
    q1: "body_email q1 = Some e1" "trim e1 = em" "body_password q1 = Some w1" "w1 \<noteq> pw" and
    q2: "body_email q2 = Some e2" "trim e2 = em" "body_password q2 = Some w2" "w2 \<noteq> pw" and
    q3: "body_email q3 = Some e3" "trim e3 = em" "body_password q3 = Some w3" "w3 \<noteq> pw" and
    q4: "body_email q4 = Some e4" "trim e4 = em" "body_password q4 = Some w4" "w4 \<noteq> pw" and
    q5: "body_email q5 = Some e5" "trim e5 = em" "body_password q5 = Some w5" "w5 \<noteq> pw"
    by auto
  have f0: "find (\<lambda>u. u_email u = trim e1) (users d0) = Some u0"
    using u0 q1(2) by simp
  note l1 = login_wrong_password [OF q1(1) f0 fresh(2) fresh(3) q1(3) pw q1(4),
      where cfg = cfg and now = t1 and r = r1]
  have s1: "find (\<lambda>u. u_email u = em) (users d1) = Some (u0\<lparr>u_loginAttempts := 1\<rparr>)"
    using l1(2) fresh steps(1) q1(2) by simp
  have f1: "find (\<lambda>u. u_email u = trim e2) (users d1) = Some (u0\<lparr>u_loginAttempts := 1\<rparr>)"
    using s1 q2(2) by simp
  note l2 = login_wrong_password [OF q2(1) f1 _ _ q2(3) _ q2(4),
      where cfg = cfg and now = t2 and r = r2]
  have s2: "find (\<lambda>u. u_email u = em) (users d2) = Some (u0\<lparr>u_loginAttempts := 2\<rparr>)"
    using l2(2) fresh pw steps(2) q2(2) by simp
  have f2: "find (\<lambda>u. u_email u = trim e3) (users d2) = Some (u0\<lparr>u_loginAttempts := 2\<rparr>)"
    using s2 q3(2) by simp
  note l3 = login_wrong_password [OF q3(1) f2 _ _ q3(3) _ q3(4),
      where cfg = cfg and now = t3 and r = r3]
  have s3: "find (\<lambda>u. u_email u = em) (users d3) = Some (u0\<lparr>u_loginAttempts := 3\<rparr>)"
    using l3(2) fresh pw steps(3) q3(2) by simp
  have f3: "find (\<lambda>u. u_email u = trim e4) (users d3) = Some (u0\<lparr>u_loginAttempts := 3\<rparr>)"
    using s3 q4(2) by simp
  note l4 = login_wrong_password [OF q4(1) f3 _ _ q4(3) _ q4(4),
      where cfg = cfg and now = t4 and r = r4]
  have s4: "find (\<lambda>u. u_email u = em) (users d4) = Some (u0\<lparr>u_loginAttempts := 4\<rparr>)"
    using l4(2) fresh pw steps(4) q4(2) by simp
  have f4: "find (\<lambda>u. u_email u = trim e5) (users d4) = Some (u0\<lparr>u_loginAttempts := 4\<rparr>)"
    using s4 q5(2) by simp
  note l5 = login_wrong_password [OF q5(1) f4 _ _ q5(3) _ q5(4),
      where cfg = cfg and now = t5 and r = r5]
  have s5: "find (\<lambda>u. u_email u = em) (users d5) = Some u5"
    using l5(2) fresh pw steps(5) locked q5(2) by simp
  have replies: "map fst [login cfg t1 r1 q1 d0, login cfg t2 r2 q2 d1, login cfg t3 r3 q3 d2,
                  login cfg t4 r4 q4 d3, login cfg t5 r5 q5 d4]
           = replicate 5 (ApiError msg_badCredentials 401)"
    using l1(1) l2(1) l3(1) l4(1) l5(1) fresh pw by (simp add: numeral_eq_Suc)
  have ss: "sessions d5 = sessions d0"
    using l1(3) l2(3) l3(3) l4(3) l5(3) fresh pw steps by simp
  have six: "login cfg t6 r6 q6 d5
               = (ApiError (msg_loginLocked (lockTimeRemaining u5 t6)) 403, d5)"
    if "body_email q6 = Some e" "trim e = em" "t6 < t5 + 2 * 60 * 60 * 1000" for t6 r6 q6 e
  proof -
    have "find (\<lambda>u. u_email u = trim e) (users d5) = Some u5" using s5 that(2) by simp
    from login_locked [OF that(1) this _ that(3)] locked show ?thesis by simp
  qed
  have seven: "find (\<lambda>u. u_email u = em) (users (snd (login cfg t7 r7 q7 d5)))
               = Some (u0\<lparr>u_loginAttempts := 0, u_lastLogin := Some t7, u_lockUntil := None\<rparr>)
           \<and> (tokenSettings cfg \<and> freshJti r7 (sessions d5) \<longrightarrow>
                (\<exists>a rt ss.
                   login cfg t7 r7 q7 d5
                     = (Json 200 (AuthBody a rt (delete_key ''password'' (toObject u5))),
                        d5\<lparr>users := resetLoginAttempts u5 t7 (users d5), sessions := ss\<rparr>)
                   \<and> list_ex (\<lambda>s. s_token s = a \<and> s_userId s = u_id u0) ss))"
    if "body_email q7 = Some e" "trim e = em" "body_password q7 = Some pw"
      "t5 + 2 * 60 * 60 * 1000 \<le> t7"
    for t7 r7 q7 e
  proof -
    have f5: "find (\<lambda>u. u_email u = trim e) (users d5) = Some u5" using s5 that(2) by simp
    have nl: "\<not> isLocked u5 t7" using that(4) locked by (simp add: isLocked_def)
    have nb: "\<not> u_isBlocked u5" using fresh locked by simp
    have p5: "u_password u5 = Bcrypt pw" using pw locked by simp
    note lc = login_correct [OF that(1) f5 nl nb that(3) p5, where cfg = cfg and r = r7]
    have a: "find (\<lambda>u. u_email u = em) (users (snd (login cfg t7 r7 q7 d5)))
               = Some (u0\<lparr>u_loginAttempts := 0, u_lastLogin := Some t7, u_lockUntil := None\<rparr>)"
      using lc(1) find_email_update [OF f5] locked that(2)
      by (simp add: resetLoginAttempts_def)
    have b: "\<exists>a rt ss.
               login cfg t7 r7 q7 d5
                 = (Json 200 (AuthBody a rt (delete_key ''password'' (toObject u5))),
                    d5\<lparr>users := resetLoginAttempts u5 t7 (users d5), sessions := ss\<rparr>)
               \<and> list_ex (\<lambda>s. s_token s = a \<and> s_userId s = u_id u0) ss"
      if cf: "tokenSettings cfg" "freshJti r7 (sessions d5)"
    proof -
      from issueTokens_Inr [OF cf] obtain a rt ss where
        it: "issueTokens cfg t7 r7 u5 (getClientMetadata q7) (sessions d5) = Inr (a, rt, ss)"
        by blast
      have "list_ex (\<lambda>s. s_token s = a \<and> s_userId s = u_id u5) ss"
        by (rule issueTokens_session [OF it])
      then show ?thesis using lc(2) [OF it] locked by auto
    qed
    show ?thesis using a b by blast
  qed
  show ?thesis using replies s5 ss six seven by blast
qed

theorem lockout_cycle_witness:
  "find (\<lambda>u. u_email u = ''ann@x.com'') (users ex_d5)
     = Some (ex_user\<lparr>u_loginAttempts := 5, u_lockUntil := Some (2000005 + 2 * 60 * 60 * 1000)\<rparr>)
   \<and> login ex_cfg 2000006 ex_rnd (ex_right\<lparr>body_email := Some '' ann@x.com ''\<rparr>) ex_d5
       = (ApiError (msg_loginLocked 120) 403, ex_d5)
   \<and> find (\<lambda>u. u_email u = ''ann@x.com'')
         (users (snd (login ex_cfg 9200005 ex_rnd ex_right ex_d5)))
       = Some (ex_user\<lparr>u_loginAttempts := 0, u_lastLogin := Some 9200005,
                       u_lockUntil := None\<rparr>)
   \<and> fst (login ex_cfg 9200005 ex_rnd ex_right ex_d5)
       = Json 200 (AuthBody ex_access2 ex_refresh2
           (delete_key ''password''
              (toObject (ex_user\<lparr>u_loginAttempts := 5,
                                  u_lockUntil := Some (2000005 + 2 * 60 * 60 * 1000)\<rparr>))))
   \<and> sessions (snd (login ex_cfg 9200005 ex_rnd ex_right ex_d5)) = [ex_session, ex_session2]"
proof -
  let ?u5 = "ex_user\<lparr>u_loginAttempts := 5, u_lockUntil := Some (2000005 + 2 * 60 * 60 * 1000)\<rparr>"
  let ?pad = "ex_right\<lparr>body_email := Some '' ann@x.com ''\<rparr>"
  have u0: "find (\<lambda>u. u_email u = ''ann@x.com'') (users ex_db) = Some ex_user"
    by (simp add: ex_db_def ex_user_def)
  have f1: "u_loginAttempts ex_user = 0" and f2: "u_lockUntil ex_user = None"
    and f3: "\<not> u_isBlocked ex_user" and pw: "u_password ex_user = Bcrypt ''Str0ng!Pass99''"
    by (simp_all add: ex_user_def)
  have tr: "trim ''ann@x.com'' = ''ann@x.com''" "trim '' ann@x.com '' = ''ann@x.com''"
    by (simp_all add: trim_def isSpace_def)
  have wrong: "\<forall>q \<in> {ex_wrong, ex_wrong, ex_wrong, ex_wrong, ex_wrong}.
                  (\<exists>e. body_email q = Some e \<and> trim e = ''ann@x.com'')
                  \<and> (\<exists>w. body_password q = Some w \<and> w \<noteq> ''Str0ng!Pass99'')"
    by (simp add: ex_wrong_def ex_req_def tr)
  note inst = lockout_cycle [OF u0 f1 f2 f3 pw wrong ex_d1_def ex_d2_def ex_d3_def ex_d4_def
      ex_d5_def refl]
  have a: "find (\<lambda>u. u_email u = ''ann@x.com'') (users ex_d5) = Some ?u5"
    using inst by blast
  have e0: "body_email ?pad = Some '' ann@x.com ''" by simp
  have e1: "body_email ex_right = Some ''ann@x.com''"
    and e2: "body_password ex_right = Some ''Str0ng!Pass99''"
    by (simp_all add: ex_right_def ex_req_def)
  have m: "lockTimeRemaining ?u5 2000006 = 120"
    by (simp add: lockTimeRemaining_def)
  have "login ex_cfg 2000006 ex_rnd ?pad ex_d5
          = (ApiError (msg_loginLocked (lockTimeRemaining ?u5 2000006)) 403, ex_d5)"
    using inst e0 tr(2) by simp
  then have b: "login ex_cfg 2000006 ex_rnd ?pad ex_d5
                  = (ApiError (msg_loginLocked 120) 403, ex_d5)"
    by (simp only: m)
  have ss: "sessions ex_d5 = [ex_session]" by code_simp
  have ts: "tokenSettings ex_cfg" by code_simp
  have fj: "freshJti ex_rnd (sessions ex_d5)" unfolding ss by code_simp
  have it: "issueTokens ex_cfg 9200005 ex_rnd ?u5 (getClientMetadata ex_right) (sessions ex_d5)
              = Inr (ex_access2, ex_refresh2, [ex_session, ex_session2])"
    unfolding ss by code_simp
  have late: "(2000005::int) + 2 * 60 * 60 * 1000 \<le> 9200005" by simp
  from inst e1 e2 tr(1) late ts fj
  have c: "find (\<lambda>u. u_email u = ''ann@x.com'')
             (users (snd (login ex_cfg 9200005 ex_rnd ex_right ex_d5)))
           = Some (ex_user\<lparr>u_loginAttempts := 0, u_lastLogin := Some 9200005,
                           u_lockUntil := None\<rparr>)"
    and "\<exists>a rt ss.
           login ex_cfg 9200005 ex_rnd ex_right ex_d5
             = (Json 200 (AuthBody a rt (delete_key ''password'' (toObject ?u5))),
                ex_d5\<lparr>users := resetLoginAttempts ?u5 9200005 (users ex_d5), sessions := ss\<rparr>)
           \<and> list_ex (\<lambda>s. s_token s = a \<and> s_userId s = u_id ex_user) ss"
    by blast+
  then obtain a' rt' ss' where
    lg: "login ex_cfg 9200005 ex_rnd ex_right ex_d5
             = (Json 200 (AuthBody a' rt' (delete_key ''password'' (toObject ?u5))),
                ex_d5\<lparr>users := resetLoginAttempts ?u5 9200005 (users ex_d5), sessions := ss'\<rparr>)"
    by blast
  have nl: "\<not> isLocked ?u5 9200005" by (simp add: isLocked_def)
  have nb: "\<not> u_isBlocked ?u5" by (simp add: ex_user_def)
  have p5: "u_password ?u5 = Bcrypt ''Str0ng!Pass99''" by (simp add: ex_user_def)
  have f5: "find (\<lambda>u. u_email u = trim ''ann@x.com'') (users ex_d5) = Some ?u5"
    using a tr(1) by simp
  from login_correct(2) [OF e1 f5 nl nb e2 p5 it] lg
  have d: "fst (login ex_cfg 9200005 ex_rnd ex_right ex_d5)
             = Json 200 (AuthBody ex_access2 ex_refresh2
                 (delete_key ''password'' (toObject ?u5)))"
    and e: "sessions (snd (login ex_cfg 9200005 ex_rnd ex_right ex_d5))
              = [ex_session, ex_session2]"
    by simp_all
  from a b c d e show ?thesis by simp
qed


end
